theory Spec2Isabelle
  imports Main "HOL-Library.Sublist"
begin

section \<open>Python values, strings and exceptions\<close>

text \<open>
  The two modules verified here are \<^verbatim>\<open>utils/api.py\<close> (symbol resolver, TTL cache, market-data
  client) and \<^verbatim>\<open>utils/memory.py\<close> (conversation buffer). Both receive dynamically typed
  arguments and the client walks a parsed JSON document, so the model has one type of Python
  values. A \<^verbatim>\<open>str\<close> is the list of the bytes of its UTF-8 encoding: equality, concatenation,
  containment of one text in another, \<^verbatim>\<open>startswith("-")\<close> and \<^verbatim>\<open>rstrip("%")\<close> are the same on
  the encodings as on the code points. A \<^verbatim>\<open>dict\<close> is the list of its items in insertion order
  (keys are distinct there, so \<open>map_of\<close> is the lookup); \<open>'f\<close> is the type of Python floats,
  whose operations are supplied by a \<open>runtime\<close> record below.
\<close>

datatype 'f pyval =
    PNone
  | PBool bool
  | PInt int
  | PFloat 'f
  | PStr string
  | PList "'f pyval list"
  | PDict "(string \<times> 'f pyval) list"

text \<open>An exception carries the text that \<^verbatim>\<open>str(e)\<close> yields.\<close>

datatype exn =
    ValueError string
  | KeyError string
  | TypeError string
  | AttributeError string
  | IndexError string
  | OverflowError string
  | Timeout string
  | RequestException string

text \<open>
  What the sources take from the Python runtime and the model does not compute: the
  Unicode-aware \<^verbatim>\<open>str.lower()\<close> and \<^verbatim>\<open>str.strip()\<close>, parsing and formatting of floats,
  \<^verbatim>\<open>repr\<close> of a value, and the wording of the interpreter's own error messages (which depends
  on the operation, named by a tag, and on the offending operand). A theorem that names no
  property of the runtime holds for every runtime.
\<close>

record 'f runtime =
  str_lower :: "string \<Rightarrow> string"
  str_strip :: "string \<Rightarrow> string"
  float_of_str :: "string \<Rightarrow> string + 'f"
  float_of_int :: "int \<Rightarrow> string + 'f"
  float_nonzero :: "'f \<Rightarrow> bool"
  format_2f :: "'f \<Rightarrow> string"
  repr :: "'f pyval \<Rightarrow> string"
  err_text :: "string \<Rightarrow> 'f pyval \<Rightarrow> string"

text \<open>
  What \<^verbatim>\<open>str.lower()\<close> and \<^verbatim>\<open>str.strip()\<close> do on a text of ASCII characters only: \<open>A\<close>..\<open>Z\<close>
  become \<open>a\<close>..\<open>z\<close>, and the ASCII characters for which \<^verbatim>\<open>str.isspace()\<close> holds are removed
  from both ends. \<open>python_strings rt\<close> says that the runtime's two operations do this on every
  ASCII text; it says nothing of them on any other text. The symbol table is ASCII, and facts
  about its entries are stated for the runtimes with this property.
\<close>

definition lower_char :: "char \<Rightarrow> char" where
  "lower_char c =
     (case map_of (zip ''ABCDEFGHIJKLMNOPQRSTUVWXYZ'' ''abcdefghijklmnopqrstuvwxyz'') c of
        Some d \<Rightarrow> d
      | None \<Rightarrow> c)"

definition ascii_lower :: "string \<Rightarrow> string" where
  "ascii_lower s = map lower_char s"

definition ascii_space :: "char \<Rightarrow> bool" where
  "ascii_space c =
     (c \<in> set [CHR 0x09, CHR 0x0A, CHR 0x0B, CHR 0x0C, CHR 0x0D,
                CHR 0x1C, CHR 0x1D, CHR 0x1E, CHR 0x1F, CHR 0x20])"

definition py_rstrip :: "(char \<Rightarrow> bool) \<Rightarrow> string \<Rightarrow> string" where
  "py_rstrip junk s = rev (dropWhile junk (rev s))"

definition ascii_strip :: "string \<Rightarrow> string" where
  "ascii_strip s = py_rstrip ascii_space (dropWhile ascii_space s)"

definition is_ascii :: "string \<Rightarrow> bool" where
  "is_ascii s = list_all (\<lambda>c. \<not> digit7 c) s"

definition python_strings :: "'f runtime \<Rightarrow> bool" where
  "python_strings rt \<longleftrightarrow>
     (\<forall>s. is_ascii s \<longrightarrow> str_lower rt s = ascii_lower s \<and> str_strip rt s = ascii_strip s)"

definition startswith :: "string \<Rightarrow> string \<Rightarrow> bool" where
  "startswith s p = (take (length p) s = p)"

text \<open>\<^verbatim>\<open>sub in s\<close> on two strings: \<open>sub\<close> occurs in \<open>s\<close> at some position.\<close>

fun str_contains :: "string \<Rightarrow> string \<Rightarrow> bool" where
  "str_contains sub [] = (sub = [])"
| "str_contains sub (c # cs) = (take (length sub) (c # cs) = sub \<or> str_contains sub cs)"

text \<open>Truth value of an object, \<^verbatim>\<open>isinstance(v, str)\<close>, and \<^verbatim>\<open>str(v)\<close>.\<close>

fun truthy :: "'f runtime \<Rightarrow> 'f pyval \<Rightarrow> bool" where
  "truthy rt PNone = False"
| "truthy rt (PBool b) = b"
| "truthy rt (PInt n) = (n \<noteq> 0)"
| "truthy rt (PFloat x) = float_nonzero rt x"
| "truthy rt (PStr s) = (s \<noteq> [])"
| "truthy rt (PList xs) = (xs \<noteq> [])"
| "truthy rt (PDict kvs) = (kvs \<noteq> [])"

fun is_str :: "'f pyval \<Rightarrow> bool" where
  "is_str (PStr s) = True"
| "is_str v = False"

fun py_str :: "'f runtime \<Rightarrow> 'f pyval \<Rightarrow> string" where
  "py_str rt (PStr s) = s"
| "py_str rt v = repr rt v"

text \<open>
  The operations the client applies to the parsed document, each with the exception Python
  raises on an operand of the wrong type: \<^verbatim>\<open>k in c\<close>, \<^verbatim>\<open>c[k]\<close>, \<^verbatim>\<open>c.get(k, d)\<close>, \<^verbatim>\<open>float(v)\<close>,
  \<^verbatim>\<open>v.rstrip("%")\<close>, \<^verbatim>\<open>list(c.keys())[0]\<close>.
\<close>

fun py_in :: "'f runtime \<Rightarrow> string \<Rightarrow> 'f pyval \<Rightarrow> exn + bool" where
  "py_in rt k (PDict kvs) = Inr (k \<in> set (map fst kvs))"
| "py_in rt k (PList xs) = Inr (PStr k \<in> set xs)"
| "py_in rt k (PStr s) = Inr (str_contains k s)"
| "py_in rt k v = Inl (TypeError (err_text rt ''in'' v))"

fun subscript :: "'f runtime \<Rightarrow> 'f pyval \<Rightarrow> string \<Rightarrow> exn + 'f pyval" where
  "subscript rt (PDict kvs) k =
     (case map_of kvs k of
        Some v \<Rightarrow> Inr v
      | None \<Rightarrow> Inl (KeyError (repr rt (PStr k))))"
| "subscript rt v k = Inl (TypeError (err_text rt ''subscript'' v))"

fun get_method :: "'f runtime \<Rightarrow> 'f pyval \<Rightarrow> string \<Rightarrow> 'f pyval \<Rightarrow> exn + 'f pyval" where
  "get_method rt (PDict kvs) k d = Inr (case map_of kvs k of Some v \<Rightarrow> v | None \<Rightarrow> d)"
| "get_method rt v k d = Inl (AttributeError (err_text rt ''get'' v))"

fun py_float :: "'f runtime \<Rightarrow> 'f pyval \<Rightarrow> exn + 'f" where
  "py_float rt (PFloat x) = Inr x"
| "py_float rt (PInt n) =
     (case float_of_int rt n of Inl m \<Rightarrow> Inl (OverflowError m) | Inr x \<Rightarrow> Inr x)"
| "py_float rt (PBool b) =
     (case float_of_int rt (if b then 1 else 0) of Inl m \<Rightarrow> Inl (OverflowError m) | Inr x \<Rightarrow> Inr x)"
| "py_float rt (PStr s) =
     (case float_of_str rt s of Inl m \<Rightarrow> Inl (ValueError m) | Inr x \<Rightarrow> Inr x)"
| "py_float rt v = Inl (TypeError (err_text rt ''float'' v))"

fun rstrip_percent :: "'f runtime \<Rightarrow> 'f pyval \<Rightarrow> exn + string" where
  "rstrip_percent rt (PStr s) = Inr (py_rstrip (\<lambda>c. c = CHR ''%'') s)"
| "rstrip_percent rt v = Inl (AttributeError (err_text rt ''rstrip'' v))"

fun first_key :: "'f runtime \<Rightarrow> 'f pyval \<Rightarrow> exn + string" where
  "first_key rt (PDict []) = Inl (IndexError (err_text rt ''index'' (PList [])))"
| "first_key rt (PDict (kv # kvs)) = Inr (fst kv)"
| "first_key rt v = Inl (AttributeError (err_text rt ''keys'' v))"

text \<open>Sequencing of steps that may raise: the first exception ends the \<^verbatim>\<open>try\<close> body.\<close>

definition bind :: "exn + 'a \<Rightarrow> ('a \<Rightarrow> exn + 'b) \<Rightarrow> exn + 'b" where
  "bind m f = (case m of Inl x \<Rightarrow> Inl x | Inr a \<Rightarrow> f a)"

section \<open>Symbol resolver (\<^verbatim>\<open>_get_symbol\<close>)\<close>

definition COMPANY_SYMBOLS :: "(string \<times> string) list" where
  "COMPANY_SYMBOLS =
    [(''microsoft'', ''MSFT''), (''apple'', ''AAPL''), (''google'', ''GOOGL''),
     (''alphabet'', ''GOOGL''), (''amazon'', ''AMZN''), (''meta'', ''META''),
     (''facebook'', ''META''), (''tesla'', ''TSLA''), (''nvidia'', ''NVDA''),
     (''intel'', ''INTC''), (''amd'', ''AMD''), (''ibm'', ''IBM''),
     (''jpmorgan'', ''JPM''), (''goldman'', ''GS''), (''morgan stanley'', ''MS''),
     (''bank of america'', ''BAC''), (''wells fargo'', ''WFC''),
     (''walmart'', ''WMT''), (''target'', ''TGT''), (''costco'', ''COST''),
     (''mcdonald'', ''MCD''), (''coca cola'', ''KO''), (''pepsi'', ''PEP''),
     (''exxon'', ''XOM''), (''chevron'', ''CVX''), (''shell'', ''SHEL''),
     (''pfizer'', ''PFE''), (''moderna'', ''MRNA''), (''johnson'', ''JNJ''),
     (''merck'', ''MRK''),
     (''at&t'', ''T''), (''verizon'', ''VZ'')]"

text \<open>The two loops of \<^verbatim>\<open>_get_symbol\<close>: over \<^verbatim>\<open>values()\<close>, then over \<^verbatim>\<open>items()\<close>.\<close>

fun ticker_loop :: "'f runtime \<Rightarrow> string \<Rightarrow> string list \<Rightarrow> string option" where
  "ticker_loop rt query_lower [] = None"
| "ticker_loop rt query_lower (ticker # rest) =
     (if str_lower rt ticker = query_lower then Some ticker
      else ticker_loop rt query_lower rest)"

fun name_loop :: "string \<Rightarrow> (string \<times> string) list \<Rightarrow> string option" where
  "name_loop query_lower [] = None"
| "name_loop query_lower ((name, ticker) # rest) =
     (if str_contains name query_lower then Some ticker else name_loop query_lower rest)"

definition get_symbol :: "'f runtime \<Rightarrow> 'f pyval \<Rightarrow> string option" where
  "get_symbol rt query =
     (if \<not> truthy rt query \<or> \<not> is_str query then None
      else case query of
        PStr q \<Rightarrow>
          (let query_lower = str_strip rt (str_lower rt q) in
           case ticker_loop rt query_lower (map snd COMPANY_SYMBOLS) of
             Some ticker \<Rightarrow> Some ticker
           | None \<Rightarrow> name_loop query_lower COMPANY_SYMBOLS)
      | _ \<Rightarrow> None)"

section \<open>Process state and environment\<close>

text \<open>
  The mutable state of \<^verbatim>\<open>api.py\<close> is the dictionary \<^verbatim>\<open>API_CALL_CACHE\<close>, from a key to the
  pair of a result and the time it was stored. Times are integers (microseconds, the
  resolution of \<^verbatim>\<open>datetime\<close>). The state also keeps a log of the effectful steps a call went
  through, in order, so that "no lookup" and "no request" can be stated.
\<close>

datatype event =
    CacheRead string
  | SymbolLookup string
  | HttpGet string
  | CacheWrite string

record world =
  API_CALL_CACHE :: "string \<Rightarrow> (string \<times> int) option"
  trace :: "event list"

text \<open>
  What a call reads from outside: the credential loaded at import time (\<^verbatim>\<open>os.getenv\<close> gives
  \<^verbatim>\<open>None\<close> or a string), the outcome of \<^verbatim>\<open>requests.get(url, timeout=10)\<close> followed by
  \<^verbatim>\<open>raise_for_status()\<close> and \<^verbatim>\<open>json()\<close> for each URL (an exception of \<^verbatim>\<open>requests\<close> or the parsed
  document; a body that is not JSON raises \<^verbatim>\<open>requests\<close>' \<^verbatim>\<open>JSONDecodeError\<close>, a
  \<^verbatim>\<open>RequestException\<close>), the two readings of \<^verbatim>\<open>datetime.now()\<close> (at the freshness test
  and at the cache write), and the runtime.
\<close>

record 'f env =
  ALPHAVANTAGE_API_KEY :: "string option"
  requests_get :: "string \<Rightarrow> exn + 'f pyval"
  now_check :: int
  now_store :: int
  builtins :: "'f runtime"

definition CACHE_DURATION :: int where
  "CACHE_DURATION = 60 * 60 * 1000000"

definition log_event :: "event \<Rightarrow> world \<Rightarrow> world" where
  "log_event ev w = w\<lparr>trace := trace w @ [ev]\<rparr>"

text \<open>
  The cache read of \<^verbatim>\<open>get_stock_price\<close> (lines 114--117): the stored result when the key is
  present and \<^verbatim>\<open>now - cached_time < CACHE_DURATION\<close>, nothing otherwise. The cache write
  (line 151) stores the result with the current time. Both are steps on the state.
\<close>

definition cache_read :: "string \<Rightarrow> int \<Rightarrow> world \<Rightarrow> string option \<times> world" where
  "cache_read cache_key now w =
     (case API_CALL_CACHE w cache_key of
        None \<Rightarrow> None
      | Some (cached_result, cached_time) \<Rightarrow>
          if now - cached_time < CACHE_DURATION then Some cached_result else None,
      log_event (CacheRead cache_key) w)"

definition cache_write :: "string \<Rightarrow> string \<Rightarrow> int \<Rightarrow> world \<Rightarrow> world" where
  "cache_write cache_key result now w =
     log_event (CacheWrite cache_key)
       (w\<lparr>API_CALL_CACHE := (API_CALL_CACHE w)(cache_key \<mapsto> (result, now))\<rparr>)"

section \<open>Market-data client: \<^verbatim>\<open>get_stock_price\<close>\<close>

text \<open>The non-ASCII literals of the messages, as UTF-8.\<close>

definition cross_mark :: string where
  "cross_mark = [CHR 0xE2, CHR 0x9D, CHR 0x8C]"

definition warning_sign :: string where
  "warning_sign = [CHR 0xE2, CHR 0x9A, CHR 0xA0, CHR 0xEF, CHR 0xB8, CHR 0x8F]"

definition stopwatch :: string where
  "stopwatch = [CHR 0xE2, CHR 0x8F, CHR 0xB1, CHR 0xEF, CHR 0xB8, CHR 0x8F]"

definition chart_up :: string where
  "chart_up = [CHR 0xF0, CHR 0x9F, CHR 0x93, CHR 0x88]"

definition chart_down :: string where
  "chart_down = [CHR 0xF0, CHR 0x9F, CHR 0x93, CHR 0x89]"

definition bar_chart :: string where
  "bar_chart = [CHR 0xF0, CHR 0x9F, CHR 0x93, CHR 0x8A]"

definition invalid_query_msg :: string where
  "invalid_query_msg = cross_mark @ '' Invalid query. Please provide a company name or stock ticker.''"

definition key_missing_msg :: string where
  "key_missing_msg =
     warning_sign @ '' Alpha Vantage API key not configured. Please set ALPHAVANTAGE_API_KEY in .env''"

definition unknown_stock_msg :: "string \<Rightarrow> string" where
  "unknown_stock_msg q =
     cross_mark @ '' Could not identify stock for '' @ [CHR 0x27] @ q @ [CHR 0x27] @ ''. ''
       @ ''Try: AAPL, MSFT, GOOGL, or company names like Apple, Microsoft''"

definition api_error_msg :: "string \<Rightarrow> string" where
  "api_error_msg m = warning_sign @ '' API Error: '' @ m"

definition no_data_msg :: "string \<Rightarrow> string" where
  "no_data_msg symbol =
     warning_sign @ '' Could not retrieve stock data for '' @ symbol @ ''. Please try again.''"

definition timeout_msg :: string where
  "timeout_msg = stopwatch @ '' Request timeout - Alpha Vantage server is slow, please try again.''"

definition network_error_msg :: "string \<Rightarrow> string" where
  "network_error_msg m = cross_mark @ '' Network error: '' @ m"

definition parse_error_msg :: "string \<Rightarrow> string" where
  "parse_error_msg m = cross_mark @ '' Error parsing data: '' @ m"

definition price_url :: "string \<Rightarrow> string \<Rightarrow> string" where
  "price_url symbol key =
     ''https://www.alphavantage.co/query?function=GLOBAL_QUOTE&symbol='' @ symbol
       @ ''&apikey='' @ key"

definition price_line :: "string \<Rightarrow> string \<Rightarrow> string \<Rightarrow> string \<Rightarrow> string \<Rightarrow> string" where
  "price_line emoji symbol price change change_percent =
     emoji @ '' '' @ symbol @ '' is trading at $'' @ price @ '', change: '' @ change
       @ '' ('' @ change_percent @ ''%)''"

text \<open>
  The body of the \<^verbatim>\<open>try\<close> after the request (lines 132--152). It is entered with the
  request already logged in \<open>w\<close>; the only state change is the cache write before the last
  \<^verbatim>\<open>return\<close>.
\<close>

definition price_body :: "'f env \<Rightarrow> string \<Rightarrow> string \<Rightarrow> world \<Rightarrow> 'f pyval \<Rightarrow> exn + string \<times> world" where
  "price_body e symbol cache_key w data =
     (let rt = builtins e in
      bind (py_in rt ''Error Message'' data) (\<lambda>has_error.
      if has_error then
        bind (subscript rt data ''Error Message'') (\<lambda>m. Inr (api_error_msg (py_str rt m), w))
      else
      bind (get_method rt data ''Global Quote'' (PDict [])) (\<lambda>quote.
      bind (if \<not> truthy rt quote then Inr True
            else bind (py_in rt ''05. price'' quote) (\<lambda>present. Inr (\<not> present))) (\<lambda>no_price.
      if no_price then Inr (no_data_msg symbol, w)
      else
      bind (subscript rt quote ''05. price'') (\<lambda>raw_price.
      bind (py_float rt raw_price) (\<lambda>price.
      bind (get_method rt quote ''09. change'' (PStr ''N/A'')) (\<lambda>change.
      bind (get_method rt quote ''10. change percent'' (PStr ''N/A'')) (\<lambda>raw_percent.
      bind (rstrip_percent rt raw_percent) (\<lambda>change_percent.
      let emoji = (if \<not> startswith change_percent ''-'' then chart_up else chart_down);
          result = price_line emoji symbol (format_2f rt price) (py_str rt change) change_percent
      in Inr (result, cache_write cache_key result (now_store e) w))))))))))"

text \<open>The three \<^verbatim>\<open>except\<close> clauses, in order; any other exception leaves the function.\<close>

fun price_except :: "exn \<Rightarrow> exn + string" where
  "price_except (Timeout m) = Inr timeout_msg"
| "price_except (RequestException m) = Inr (network_error_msg m)"
| "price_except (KeyError m) = Inr (parse_error_msg m)"
| "price_except (ValueError m) = Inr (parse_error_msg m)"
| "price_except x = Inl x"

text \<open>
  \<^verbatim>\<open>get_stock_price(query)\<close>: \<open>Inr s\<close> is \<^verbatim>\<open>return s\<close>, \<open>Inl x\<close> is an exception that reaches the
  caller. The second component is the state the call leaves.
\<close>

definition get_stock_price :: "'f env \<Rightarrow> 'f pyval \<Rightarrow> world \<Rightarrow> (exn + string) \<times> world" where
  "get_stock_price e query w =
     (if \<not> truthy (builtins e) query \<or> \<not> is_str query then (Inr invalid_query_msg, w)
      else case ALPHAVANTAGE_API_KEY e of
        None \<Rightarrow> (Inr key_missing_msg, w)
      | Some key \<Rightarrow>
          if key = [] then (Inr key_missing_msg, w)
          else
           (case query of
              PStr q \<Rightarrow>
              (let cache_key = ''price_'' @ str_lower (builtins e) q;
                   (hit, w1) = cache_read cache_key (now_check e) w
               in case hit of
                    Some cached_result \<Rightarrow> (Inr cached_result, w1)
                  | None \<Rightarrow>
                      (let w2 = log_event (SymbolLookup q) w1 in
                       case get_symbol (builtins e) query of
                         None \<Rightarrow> (Inr (unknown_stock_msg q), w2)
                       | Some symbol \<Rightarrow>
                           (let url = price_url symbol key;
                                w3 = log_event (HttpGet url) w2
                            in case bind (requests_get e url) (price_body e symbol cache_key w3) of
                                 Inr (result, w4) \<Rightarrow> (Inr result, w4)
                               | Inl x \<Rightarrow> (price_except x, w3))))
            | _ \<Rightarrow> (Inr invalid_query_msg, w)))"

section \<open>Market-data client: \<^verbatim>\<open>get_intraday_data\<close>\<close>

definition invalid_query_short :: string where
  "invalid_query_short = cross_mark @ '' Invalid query provided.''"

definition invalid_interval_msg :: string where
  "invalid_interval_msg = cross_mark @ '' Invalid interval. Choose from: 1min, 5min, 15min, 30min, 60min''"

definition key_missing_short :: string where
  "key_missing_short = warning_sign @ '' Alpha Vantage API key not configured.''"

definition unknown_stock_short :: "string \<Rightarrow> string" where
  "unknown_stock_short q =
     cross_mark @ '' Could not identify stock for '' @ [CHR 0x27] @ q @ [CHR 0x27] @ ''.''"

definition no_intraday_msg :: "string \<Rightarrow> string" where
  "no_intraday_msg symbol = warning_sign @ '' Could not retrieve intraday data for '' @ symbol @ ''.''"

definition intraday_error_msg :: "string \<Rightarrow> string" where
  "intraday_error_msg m = cross_mark @ '' Error fetching intraday data: '' @ m"

definition intraday_url :: "string \<Rightarrow> string \<Rightarrow> string \<Rightarrow> string" where
  "intraday_url symbol interval key =
     ''https://www.alphavantage.co/query?'' @ ''function=TIME_SERIES_INTRADAY&symbol='' @ symbol
       @ ''&interval='' @ interval @ ''&apikey='' @ key"

definition intraday_line ::
  "string \<Rightarrow> string \<Rightarrow> string \<Rightarrow> string \<Rightarrow> string \<Rightarrow> string \<Rightarrow> string \<Rightarrow> string \<Rightarrow> string" where
  "intraday_line symbol interval latest_time op hi lo cl vol =
     bar_chart @ '' '' @ symbol @ '' Intraday ('' @ interval @ '') - '' @ latest_time @ '':''
       @ [CHR 0x0A] @ ''Open: $'' @ op @ '', High: $'' @ hi @ '', Low: $'' @ lo
       @ '', Close: $'' @ cl @ '', Volume: '' @ vol"

definition valid_intervals :: "string list" where
  "valid_intervals = [''1min'', ''5min'', ''15min'', ''30min'', ''60min'']"

fun exn_text :: "exn \<Rightarrow> string" where
  "exn_text (ValueError m) = m"
| "exn_text (KeyError m) = m"
| "exn_text (TypeError m) = m"
| "exn_text (AttributeError m) = m"
| "exn_text (IndexError m) = m"
| "exn_text (OverflowError m) = m"
| "exn_text (Timeout m) = m"
| "exn_text (RequestException m) = m"

text \<open>The body of the \<^verbatim>\<open>try\<close> after the request (lines 194--215); it changes no state.\<close>

definition intraday_body :: "'f runtime \<Rightarrow> string \<Rightarrow> string \<Rightarrow> 'f pyval \<Rightarrow> exn + string" where
  "intraday_body rt symbol interval data =
     bind (py_in rt ''Error Message'' data) (\<lambda>has_error.
     if has_error then
       bind (subscript rt data ''Error Message'') (\<lambda>m. Inr (api_error_msg (py_str rt m)))
     else
     let time_series_key = ''Time Series ('' @ interval @ '')'' in
     bind (py_in rt time_series_key data) (\<lambda>present.
     if \<not> present then Inr (no_intraday_msg symbol)
     else
     bind (subscript rt data time_series_key) (\<lambda>time_series.
     bind (first_key rt time_series) (\<lambda>latest_time.
     bind (subscript rt time_series latest_time) (\<lambda>latest_data.
     bind (subscript rt latest_data ''1. open'') (\<lambda>op.
     bind (subscript rt latest_data ''2. high'') (\<lambda>hi.
     bind (subscript rt latest_data ''3. low'') (\<lambda>lo.
     bind (subscript rt latest_data ''4. close'') (\<lambda>cl.
     bind (subscript rt latest_data ''5. volume'') (\<lambda>vol.
     Inr (intraday_line symbol interval latest_time
            (py_str rt op) (py_str rt hi) (py_str rt lo) (py_str rt cl) (py_str rt vol))))))))))))"

text \<open>
  \<^verbatim>\<open>get_intraday_data(query, interval)\<close>. Its \<^verbatim>\<open>except Exception\<close> turns every exception of the
  \<^verbatim>\<open>try\<close> body into a message, and nothing before the \<^verbatim>\<open>try\<close> raises, so the result is a string.
\<close>

definition get_intraday_data :: "'f env \<Rightarrow> 'f pyval \<Rightarrow> 'f pyval \<Rightarrow> world \<Rightarrow> string \<times> world" where
  "get_intraday_data e query interval w =
     (if \<not> truthy (builtins e) query \<or> \<not> is_str query then (invalid_query_short, w)
      else if interval \<notin> set (map PStr valid_intervals) then (invalid_interval_msg, w)
      else case ALPHAVANTAGE_API_KEY e of
        None \<Rightarrow> (key_missing_short, w)
      | Some key \<Rightarrow>
          if key = [] then (key_missing_short, w)
          else
            (let w1 = log_event (SymbolLookup (py_str (builtins e) query)) w in
             case get_symbol (builtins e) query of
               None \<Rightarrow> (unknown_stock_short (py_str (builtins e) query), w1)
             | Some symbol \<Rightarrow>
                 (let iv = py_str (builtins e) interval;
                      url = intraday_url symbol iv key;
                      w2 = log_event (HttpGet url) w1
                  in case bind (requests_get e url) (intraday_body (builtins e) symbol iv) of
                       Inr result \<Rightarrow> (result, w2)
                     | Inl x \<Rightarrow> (intraday_error_msg (exn_text x), w2))))"

section \<open>Conversation memory (\<^verbatim>\<open>utils/memory.py\<close>)\<close>

definition MAX_MEMORY :: nat where
  "MAX_MEMORY = 10"

text \<open>The slice \<^verbatim>\<open>xs[-n:]\<close> for a positive \<open>n\<close>: the last \<open>n\<close> elements, all of \<open>xs\<close> when it is shorter.\<close>

definition last_n :: "nat \<Rightarrow> 'a list \<Rightarrow> 'a list" where
  "last_n n xs = drop (length xs - n) xs"

text \<open>
  \<^verbatim>\<open>add_to_memory(user_message, bot_response)\<close> on the buffer \<^verbatim>\<open>conversation_memory\<close>: \<open>Inl\<close> is the
  \<^verbatim>\<open>ValueError\<close> raised by the validation (the buffer is then as before), \<open>Inr\<close> the new buffer.
\<close>

definition add_to_memory ::
  "'f runtime \<Rightarrow> 'f pyval \<Rightarrow> 'f pyval \<Rightarrow> (string \<times> string) list \<Rightarrow> exn + (string \<times> string) list" where
  "add_to_memory rt user_message bot_response conversation_memory =
     (if \<not> truthy rt user_message \<or> \<not> is_str user_message then
        Inl (ValueError ''user_message must be a non-empty string'')
      else if \<not> truthy rt bot_response \<or> \<not> is_str bot_response then
        Inl (ValueError ''bot_response must be a non-empty string'')
      else
        (let appended = conversation_memory
               @ [(str_strip rt (py_str rt user_message),
                   str_strip rt (py_str rt bot_response))]
         in Inr (if length appended > MAX_MEMORY then last_n MAX_MEMORY appended else appended)))"

text \<open>A run of calls, stopped by the first one that raises.\<close>

fun add_all ::
  "'f runtime \<Rightarrow> ('f pyval \<times> 'f pyval) list \<Rightarrow> (string \<times> string) list \<Rightarrow> exn + (string \<times> string) list" where
  "add_all rt [] mem = Inr mem"
| "add_all rt ((u, b) # rest) mem = bind (add_to_memory rt u b mem) (add_all rt rest)"

text \<open>
  For stating properties of runs on valid arguments: a pair of non-empty strings as the two
  arguments of a call, and the pair that call appends (both texts stripped, line 30).
\<close>

definition as_args :: "string \<times> string \<Rightarrow> 'f pyval \<times> 'f pyval" where
  "as_args p = (PStr (fst p), PStr (snd p))"

definition stored :: "'f runtime \<Rightarrow> string \<times> string \<Rightarrow> string \<times> string" where
  "stored rt p = (str_strip rt (fst p), str_strip rt (snd p))"

section \<open>A runtime instance and test doubles\<close>

text \<open>
  For running the model on concrete inputs. \<^verbatim>\<open>lower()\<close> and \<^verbatim>\<open>strip()\<close> are the two ASCII
  operations, which is what Python computes on the ASCII inputs they are run on here. Floats
  are fixed-point numbers counted in
  hundredths: \<open>cents_of_str\<close> reads the literals \<^verbatim>\<open>[-]d+.dd\<close>, on which \<^verbatim>\<open>float()\<close> followed by
  \<^verbatim>\<open>format(x, ".2f")\<close> prints the same decimal number, and refuses every other string; it
  stands in for \<^verbatim>\<open>float()\<close> on such literals only (none of the other syntax of \<^verbatim>\<open>float()\<close>, no
  negative zero, at most 15 significant digits). \<open>scalar_repr\<close>
  is \<^verbatim>\<open>repr\<close> on \<^verbatim>\<open>None\<close>, booleans, integers, these floats and strings that need no escape;
  a non-empty list or dict is abbreviated. The wording of the error messages is CPython
  3.12's. The environment \<open>mock_env\<close> answers every request with one fixed outcome, as a
  test double of \<^verbatim>\<open>requests.get\<close> would.
\<close>

definition digit_of :: "char \<Rightarrow> nat option" where
  "digit_of c = map_of (zip ''0123456789'' [0, 1, 2, 3, 4, 5, 6, 7, 8, 9]) c"

fun digits_value :: "nat \<Rightarrow> string \<Rightarrow> nat option" where
  "digits_value acc [] = Some acc"
| "digits_value acc (c # cs) =
     (case digit_of c of None \<Rightarrow> None | Some d \<Rightarrow> digits_value (10 * acc + d) cs)"

definition quoted :: "string \<Rightarrow> string" where
  "quoted s = [CHR 0x27] @ s @ [CHR 0x27]"

definition cents_of_str :: "string \<Rightarrow> string + int" where
  "cents_of_str s =
     (let negative = (take 1 s = ''-'');
          body = (if negative then drop 1 s else s);
          whole = takeWhile (\<lambda>c. c \<noteq> CHR ''.'') body;
          frac = drop (length whole + 1) body
      in case (digits_value 0 whole, digits_value 0 frac) of
           (Some a, Some b) \<Rightarrow>
             if whole \<noteq> [] \<and> length frac = 2 \<and> length body = length whole + 3
             then Inr ((if negative then - 1 else 1) * int (100 * a + b))
             else Inl (''could not convert string to float: '' @ quoted s)
         | _ \<Rightarrow> Inl (''could not convert string to float: '' @ quoted s))"

definition digit_char :: "nat \<Rightarrow> char" where
  "digit_char d = ''0123456789'' ! d"

fun decimal :: "nat \<Rightarrow> string" where
  "decimal n = (if n < 10 then [digit_char n] else decimal (n div 10) @ [digit_char (n mod 10)])"

definition format_cents :: "int \<Rightarrow> string" where
  "format_cents x =
     (if x < 0 then ''-'' else []) @ decimal (nat \<bar>x\<bar> div 100) @ ''.''
       @ [digit_char (nat \<bar>x\<bar> mod 100 div 10), digit_char (nat \<bar>x\<bar> mod 10)]"

fun type_name :: "'f pyval \<Rightarrow> string" where
  "type_name PNone = ''NoneType''"
| "type_name (PBool b) = ''bool''"
| "type_name (PInt n) = ''int''"
| "type_name (PFloat x) = ''float''"
| "type_name (PStr s) = ''str''"
| "type_name (PList xs) = ''list''"
| "type_name (PDict kvs) = ''dict''"

definition cpython_err_text :: "string \<Rightarrow> 'f pyval \<Rightarrow> string" where
  "cpython_err_text operation v =
     (if operation = ''in'' then ''argument of type '' @ quoted (type_name v) @ '' is not iterable''
      else if operation = ''float'' then
        ''float() argument must be a string or a real number, not '' @ quoted (type_name v)
      else if operation = ''subscript'' then
        (if type_name v = ''list'' then ''list indices must be integers or slices, not str''
         else if type_name v = ''str'' then ''string indices must be integers, not '' @ quoted ''str''
         else quoted (type_name v) @ '' object is not subscriptable'')
      else if operation = ''index'' then ''list index out of range''
      else quoted (type_name v) @ '' object has no attribute '' @ quoted operation)"

fun scalar_repr :: "int pyval \<Rightarrow> string" where
  "scalar_repr PNone = ''None''"
| "scalar_repr (PBool b) = (if b then ''True'' else ''False'')"
| "scalar_repr (PInt n) = (if n < 0 then ''-'' else []) @ decimal (nat \<bar>n\<bar>)"
| "scalar_repr (PFloat x) =
     (if x < 0 then ''-'' else []) @ decimal (nat \<bar>x\<bar> div 100) @ ''.''
       @ [digit_char (nat \<bar>x\<bar> mod 100 div 10)]
       @ (if nat \<bar>x\<bar> mod 10 = 0 then [] else [digit_char (nat \<bar>x\<bar> mod 10)])"
| "scalar_repr (PStr s) = quoted s"
| "scalar_repr (PList xs) = (if xs = [] then ''[]'' else ''[...]'')"
| "scalar_repr (PDict kvs) = (if kvs = [] then ''{}'' else ''{...}'')"

definition sample_runtime :: "int runtime" where
  "sample_runtime =
     \<lparr>str_lower = ascii_lower,
      str_strip = ascii_strip,
      float_of_str = cents_of_str,
      float_of_int = (\<lambda>n. Inr (100 * n)),
      float_nonzero = (\<lambda>x. x \<noteq> 0),
      format_2f = format_cents,
      repr = scalar_repr,
      err_text = cpython_err_text\<rparr>"

definition mock_env :: "string option \<Rightarrow> exn + int pyval \<Rightarrow> int \<Rightarrow> int \<Rightarrow> int env" where
  "mock_env key outcome t_check t_store =
     \<lparr>ALPHAVANTAGE_API_KEY = key,
      requests_get = (\<lambda>url. outcome),
      now_check = t_check,
      now_store = t_store,
      builtins = sample_runtime\<rparr>"

definition empty_world :: world where
  "empty_world = \<lparr>API_CALL_CACHE = Map.empty, trace = []\<rparr>"

section \<open>Auxiliary facts\<close>

lemma bind_Inr [simp]: "bind (Inr a) f = f a"
  by (simp add: bind_def)

lemma bind_Inl [simp]: "bind (Inl x) f = Inl x"
  by (simp add: bind_def)

lemma py_in_dict: "py_in rt k (PDict kvs) = Inr (map_of kvs k \<noteq> None)"
  by (simp add: map_of_eq_None_iff)

lemma valid_arg_iff:
  "(\<not> truthy rt v \<or> \<not> is_str v) \<longleftrightarrow> (v = PStr [] \<or> v = PNone \<or> \<not> is_str v)"
  by (cases v) simp_all

lemma startswith_prefix: "startswith s p \<longleftrightarrow> prefix p s"
  unfolding startswith_def by (metis append_eq_conv_conj prefix_def)

subsection \<open>ASCII texts and the runtime's string operations\<close>

lemma lower_char_ascii:
  "lower_char (CHR ''A'') = CHR ''a''" "lower_char (CHR ''B'') = CHR ''b''"
  "lower_char (CHR ''C'') = CHR ''c''" "lower_char (CHR ''D'') = CHR ''d''"
  "lower_char (CHR ''E'') = CHR ''e''" "lower_char (CHR ''F'') = CHR ''f''"
  "lower_char (CHR ''G'') = CHR ''g''" "lower_char (CHR ''H'') = CHR ''h''"
  "lower_char (CHR ''I'') = CHR ''i''" "lower_char (CHR ''J'') = CHR ''j''"
  "lower_char (CHR ''K'') = CHR ''k''" "lower_char (CHR ''L'') = CHR ''l''"
  "lower_char (CHR ''M'') = CHR ''m''" "lower_char (CHR ''N'') = CHR ''n''"
  "lower_char (CHR ''O'') = CHR ''o''" "lower_char (CHR ''P'') = CHR ''p''"
  "lower_char (CHR ''Q'') = CHR ''q''" "lower_char (CHR ''R'') = CHR ''r''"
  "lower_char (CHR ''S'') = CHR ''s''" "lower_char (CHR ''T'') = CHR ''t''"
  "lower_char (CHR ''U'') = CHR ''u''" "lower_char (CHR ''V'') = CHR ''v''"
  "lower_char (CHR ''W'') = CHR ''w''" "lower_char (CHR ''X'') = CHR ''x''"
  "lower_char (CHR ''Y'') = CHR ''y''" "lower_char (CHR ''Z'') = CHR ''z''"
  "lower_char (CHR ''a'') = CHR ''a''" "lower_char (CHR ''b'') = CHR ''b''"
  "lower_char (CHR ''c'') = CHR ''c''" "lower_char (CHR ''d'') = CHR ''d''"
  "lower_char (CHR ''e'') = CHR ''e''" "lower_char (CHR ''f'') = CHR ''f''"
  "lower_char (CHR ''g'') = CHR ''g''" "lower_char (CHR ''h'') = CHR ''h''"
  "lower_char (CHR ''i'') = CHR ''i''" "lower_char (CHR ''j'') = CHR ''j''"
  "lower_char (CHR ''k'') = CHR ''k''" "lower_char (CHR ''l'') = CHR ''l''"
  "lower_char (CHR ''m'') = CHR ''m''" "lower_char (CHR ''n'') = CHR ''n''"
  "lower_char (CHR ''o'') = CHR ''o''" "lower_char (CHR ''p'') = CHR ''p''"
  "lower_char (CHR ''q'') = CHR ''q''" "lower_char (CHR ''r'') = CHR ''r''"
  "lower_char (CHR ''s'') = CHR ''s''" "lower_char (CHR ''t'') = CHR ''t''"
  "lower_char (CHR ''u'') = CHR ''u''" "lower_char (CHR ''v'') = CHR ''v''"
  "lower_char (CHR ''w'') = CHR ''w''" "lower_char (CHR ''x'') = CHR ''x''"
  "lower_char (CHR ''y'') = CHR ''y''" "lower_char (CHR ''z'') = CHR ''z''"
  "lower_char (CHR '' '') = CHR '' ''" "lower_char (CHR ''&'') = CHR ''&''"
  by (simp_all add: lower_char_def)

lemmas string_eval = ascii_lower_def lower_char_ascii ascii_strip_def py_rstrip_def ascii_space_def

lemma lower_char_cases:
  "lower_char c = c
   \<or> (c, lower_char c) \<in> set (zip ''ABCDEFGHIJKLMNOPQRSTUVWXYZ'' ''abcdefghijklmnopqrstuvwxyz'')"
  unfolding lower_char_def by (auto split: option.splits dest: map_of_SomeD)

lemma digit7_lower_char: "digit7 (lower_char c) = digit7 c"
  using lower_char_cases [of c] by auto

lemma is_ascii_lower: "is_ascii (ascii_lower s) = is_ascii s"
  by (induction s) (simp_all add: is_ascii_def ascii_lower_def digit7_lower_char)

lemma ascii_lower_Nil_iff: "ascii_lower s = [] \<longleftrightarrow> s = []"
  by (simp add: ascii_lower_def)

lemma python_strings_lower: "python_strings rt \<Longrightarrow> is_ascii s \<Longrightarrow> str_lower rt s = ascii_lower s"
  by (simp add: python_strings_def)

lemma python_strings_strip: "python_strings rt \<Longrightarrow> is_ascii s \<Longrightarrow> str_strip rt s = ascii_strip s"
  by (simp add: python_strings_def)

lemma python_strings_sample: "python_strings sample_runtime"
  by (simp add: python_strings_def sample_runtime_def)

lemma ascii_space_is_ascii: "list_all ascii_space ws \<Longrightarrow> is_ascii ws"
  by (induction ws) (auto simp: is_ascii_def ascii_space_def)

lemma strip_blank: "list_all ascii_space ws \<Longrightarrow> ascii_strip ws = []"
  by (auto simp: ascii_strip_def py_rstrip_def list_all_iff dest: set_dropWhileD)

subsection \<open>The symbol table\<close>

lemma str_contains_Cons:
  "str_contains sub (c # cs) = (prefix sub (c # cs) \<or> str_contains sub cs)"
proof -
  have "take (length sub) (c # cs) = sub \<longleftrightarrow> prefix sub (c # cs)"
    by (metis append_eq_conv_conj prefix_def)
  then show ?thesis by simp
qed

lemma str_contains_Nil: "str_contains (a # sub) [] = False"
  by simp

lemma str_contains_sublist: "str_contains sub s \<longleftrightarrow> sublist sub s"
proof (induction s)
  case Nil
  show ?case by simp
next
  case (Cons c cs)
  then show ?case
    by (simp only: str_contains_Cons sublist_Cons_right)
qed

lemma ticker_loop_map_of:
  "ticker_loop rt ql ts = map_of (map (\<lambda>t. (str_lower rt t, t)) ts) ql"
  by (induction ts) simp_all

lemma ticker_loop_None: "ticker_loop rt ql ts = None \<longleftrightarrow> ql \<notin> set (map (str_lower rt) ts)"
  by (induction ts) auto

lemma lowered_tickers:
  "map (\<lambda>t. (ascii_lower t, t)) (map snd COMPANY_SYMBOLS) =
    [(''msft'', ''MSFT''), (''aapl'', ''AAPL''), (''googl'', ''GOOGL''), (''googl'', ''GOOGL''),
     (''amzn'', ''AMZN''), (''meta'', ''META''), (''meta'', ''META''), (''tsla'', ''TSLA''),
     (''nvda'', ''NVDA''), (''intc'', ''INTC''), (''amd'', ''AMD''), (''ibm'', ''IBM''),
     (''jpm'', ''JPM''), (''gs'', ''GS''), (''ms'', ''MS''), (''bac'', ''BAC''), (''wfc'', ''WFC''),
     (''wmt'', ''WMT''), (''tgt'', ''TGT''), (''cost'', ''COST''), (''mcd'', ''MCD''), (''ko'', ''KO''),
     (''pep'', ''PEP''), (''xom'', ''XOM''), (''cvx'', ''CVX''), (''shel'', ''SHEL''),
     (''pfe'', ''PFE''), (''mrna'', ''MRNA''), (''jnj'', ''JNJ''), (''mrk'', ''MRK''),
     (''t'', ''T''), (''vz'', ''VZ'')]"
  by (simp add: COMPANY_SYMBOLS_def ascii_lower_def lower_char_ascii)

lemma ascii_tickers: "list_all is_ascii (map snd COMPANY_SYMBOLS)"
  by (simp add: COMPANY_SYMBOLS_def is_ascii_def)

lemma runtime_lowered_tickers:
  assumes "python_strings rt"
  shows "map (\<lambda>t. (str_lower rt t, t)) (map snd COMPANY_SYMBOLS)
           = map (\<lambda>t. (ascii_lower t, t)) (map snd COMPANY_SYMBOLS)"
proof (rule map_cong [OF refl])
  fix t assume "t \<in> set (map snd COMPANY_SYMBOLS)"
  with ascii_tickers have "is_ascii t"
    by (simp only: list_all_iff)
  with assms show "(str_lower rt t, t) = (ascii_lower t, t)"
    by (simp add: python_strings_lower)
qed

lemma get_symbol_ascii_norm:
  assumes "python_strings rt" and "q \<noteq> []" and "str_lower rt q = l" and "is_ascii l"
  shows "get_symbol rt (PStr q) =
           (case map_of (map (\<lambda>t. (ascii_lower t, t)) (map snd COMPANY_SYMBOLS)) (ascii_strip l) of
              Some ticker \<Rightarrow> Some ticker
            | None \<Rightarrow> name_loop (ascii_strip l) COMPANY_SYMBOLS)"
proof -
  have strip: "str_strip rt l = ascii_strip l"
    using assms(1) assms(4) by (rule python_strings_strip)
  have "get_symbol rt (PStr q) =
           (case map_of (map (\<lambda>t. (str_lower rt t, t)) (map snd COMPANY_SYMBOLS))
                   (str_strip rt (str_lower rt q)) of
              Some ticker \<Rightarrow> Some ticker
            | None \<Rightarrow> name_loop (str_strip rt (str_lower rt q)) COMPANY_SYMBOLS)"
    using assms(2) by (simp add: get_symbol_def Let_def ticker_loop_map_of)
  then show ?thesis
    unfolding runtime_lowered_tickers [OF assms(1)] assms(3) strip .
qed

lemma name_loop_first:
  "(\<exists>i < length tab. sublist (fst (tab ! i)) ql \<and> (\<forall>j < i. \<not> sublist (fst (tab ! j)) ql)
        \<and> name_loop ql tab = Some (snd (tab ! i)))
   \<or> ((\<forall>a \<in> set (map fst tab). \<not> sublist a ql) \<and> name_loop ql tab = None)"
proof (induction tab)
  case Nil
  show ?case by simp
next
  case (Cons p tab)
  obtain name ticker where p: "p = (name, ticker)" by (cases p)
  show ?case
  proof (cases "sublist name ql")
    case True
    then have "sublist (fst ((p # tab) ! 0)) ql
        \<and> (\<forall>j < 0. \<not> sublist (fst ((p # tab) ! j)) ql)
        \<and> name_loop ql (p # tab) = Some (snd ((p # tab) ! 0))"
      by (simp add: p str_contains_sublist)
    then show ?thesis by blast
  next
    case False
    from Cons.IH show ?thesis
    proof
      assume "\<exists>i < length tab. sublist (fst (tab ! i)) ql
        \<and> (\<forall>j < i. \<not> sublist (fst (tab ! j)) ql)
        \<and> name_loop ql tab = Some (snd (tab ! i))"
      then obtain i where i: "i < length tab" "sublist (fst (tab ! i)) ql"
        "\<forall>j < i. \<not> sublist (fst (tab ! j)) ql" "name_loop ql tab = Some (snd (tab ! i))"
        by blast
      have "\<forall>j < Suc i. \<not> sublist (fst ((p # tab) ! j)) ql"
        using i(3) False p by (auto simp: less_Suc_eq_0_disj)
      with i False have "Suc i < length (p # tab) \<and> sublist (fst ((p # tab) ! Suc i)) ql
        \<and> (\<forall>j < Suc i. \<not> sublist (fst ((p # tab) ! j)) ql)
        \<and> name_loop ql (p # tab) = Some (snd ((p # tab) ! Suc i))"
        by (simp add: p str_contains_sublist)
      then show ?thesis by blast
    next
      assume "(\<forall>a \<in> set (map fst tab). \<not> sublist a ql) \<and> name_loop ql tab = None"
      with False show ?thesis by (simp add: p str_contains_sublist)
    qed
  qed
qed

lemma lower_AAPL: "str_lower sample_runtime ''AAPL'' = ''aapl''"
  by (simp add: sample_runtime_def ascii_lower_def lower_char_ascii)

lemma get_symbol_AAPL: "get_symbol sample_runtime (PStr ''AAPL'') = Some ''AAPL''"
proof -
  have "is_ascii ''aapl''" and "''AAPL'' \<noteq> []"
    by (simp_all add: is_ascii_def)
  from get_symbol_ascii_norm [OF python_strings_sample this(2) lower_AAPL this(1)]
  show ?thesis
    unfolding lowered_tickers by (simp add: string_eval)
qed

subsection \<open>The sample runtime on one price literal\<close>

lemma cents_150_25: "cents_of_str ''150.25'' = Inr 15025"
  by (simp add: cents_of_str_def digit_of_def Let_def)

lemma decimal_150: "decimal 150 = ''150''"
  by (simp add: digit_char_def)

lemma format_150_25: "format_cents 15025 = ''150.25''"
  by (simp add: format_cents_def decimal_150 digit_char_def)

lemmas mock_eval = mock_env_def empty_world_def cache_read_def

lemma sample_fields:
  "float_of_str sample_runtime = cents_of_str" "format_2f sample_runtime = format_cents"
  "err_text sample_runtime = cpython_err_text" "repr sample_runtime = scalar_repr"
  by (simp_all add: sample_runtime_def)

subsection \<open>Unfolding \<^verbatim>\<open>get_stock_price\<close> up to the request\<close>

lemma get_stock_price_fetch:
  assumes "q \<noteq> []" and "ALPHAVANTAGE_API_KEY e = Some key" and "key \<noteq> []"
      and "k = ''price_'' @ str_lower (builtins e) q"
      and "fst (cache_read k (now_check e) w) = None"
      and "get_symbol (builtins e) (PStr q) = Some symbol"
      and "w3 = log_event (HttpGet (price_url symbol key))
                  (log_event (SymbolLookup q) (log_event (CacheRead k) w))"
  shows "bind (requests_get e (price_url symbol key)) (price_body e symbol k w3) = Inr (result, w4)
         \<Longrightarrow> get_stock_price e (PStr q) w = (Inr result, w4)"
    and "bind (requests_get e (price_url symbol key)) (price_body e symbol k w3) = Inl x
         \<Longrightarrow> get_stock_price e (PStr q) w = (price_except x, w3)"
  using assms(1-3,5,6) unfolding assms(4) assms(7)
  by (simp_all add: get_stock_price_def cache_read_def Let_def)

lemma get_stock_price_unknown:
  assumes "q \<noteq> []" and "ALPHAVANTAGE_API_KEY e = Some key" and "key \<noteq> []"
      and "k = ''price_'' @ str_lower (builtins e) q"
      and "fst (cache_read k (now_check e) w) = None"
      and "get_symbol (builtins e) (PStr q) = None"
  shows "get_stock_price e (PStr q) w
           = (Inr (unknown_stock_msg q), log_event (SymbolLookup q) (log_event (CacheRead k) w))"
  using assms(1-3,5,6) unfolding assms(4)
  by (simp add: get_stock_price_def cache_read_def Let_def)

lemma get_stock_price_hit:
  assumes "q \<noteq> []" and "ALPHAVANTAGE_API_KEY e = Some key" and "key \<noteq> []"
      and "k = ''price_'' @ str_lower (builtins e) q"
      and "fst (cache_read k (now_check e) w) = Some v"
  shows "get_stock_price e (PStr q) w = (Inr v, log_event (CacheRead k) w)"
  using assms(1-3,5) unfolding assms(4)
  by (simp add: get_stock_price_def cache_read_def Let_def)

lemma price_body_quote:
  assumes "map_of data ''Error Message'' = None"
      and "map_of data ''Global Quote'' = Some (PDict quote)"
      and "map_of quote ''05. price'' = Some raw_price"
      and "py_float (builtins e) raw_price = Inr price"
      and "change = (case map_of quote ''09. change'' of None \<Rightarrow> PStr ''N/A'' | Some v \<Rightarrow> v)"
      and "(case map_of quote ''10. change percent'' of None \<Rightarrow> PStr ''N/A'' | Some v \<Rightarrow> v)
             = PStr percent"
      and "change_percent = py_rstrip (\<lambda>c. c = CHR ''%'') percent"
      and "result = price_line (if startswith change_percent ''-'' then chart_down else chart_up)
                      symbol (format_2f (builtins e) price) (py_str (builtins e) change)
                      change_percent"
  shows "price_body e symbol cache_key w (PDict data) =
           Inr (result, cache_write cache_key result (now_store e) w)"
proof -
  from assms(3) have "quote \<noteq> []" by auto
  with assms show ?thesis
    by (simp add: price_body_def py_in_dict Let_def del: py_in.simps)
qed

lemma price_body_no_price:
  assumes "map_of data ''Error Message'' = None"
      and "map_of data ''Global Quote'' = Some (PDict quote)"
      and "map_of quote ''05. price'' = None"
  shows "price_body e symbol cache_key w (PDict data) = Inr (no_data_msg symbol, w)"
  using assms by (simp add: price_body_def py_in_dict Let_def del: py_in.simps)

text \<open>
  The body of the \<^verbatim>\<open>try\<close> reads nothing of the state: on two states it raises the same
  exception or returns the same text, and it leaves the state as it was or with the one
  cache write.
\<close>

lemma price_body_two_states:
  "case price_body e symbol k w data of
     Inl x \<Rightarrow> price_body e symbol k w' data = Inl x
   | Inr (r, w1) \<Rightarrow>
       (w1 = w \<and> price_body e symbol k w' data = Inr (r, w'))
       \<or> (w1 = cache_write k r (now_store e) w
          \<and> price_body e symbol k w' data = Inr (r, cache_write k r (now_store e) w'))"
  by (auto simp: price_body_def Let_def bind_def split: sum.splits)

lemma request_two_states:
  "case bind m (price_body e symbol k w) of
     Inl x \<Rightarrow> bind m (price_body e symbol k w') = Inl x
   | Inr (r, w1) \<Rightarrow>
       (w1 = w \<and> bind m (price_body e symbol k w') = Inr (r, w'))
       \<or> (w1 = cache_write k r (now_store e) w
          \<and> bind m (price_body e symbol k w') = Inr (r, cache_write k r (now_store e) w'))"
proof (cases m)
  case (Inl x)
  then show ?thesis by simp
next
  case (Inr data)
  show ?thesis
    unfolding Inr bind_Inr by (rule price_body_two_states)
qed

lemma get_stock_price_miss:
  assumes "q \<noteq> []" and "ALPHAVANTAGE_API_KEY e = Some key" and "key \<noteq> []"
      and "k = ''price_'' @ str_lower (builtins e) q"
      and "fst (cache_read k (now_check e) w) = None"
      and "fst (cache_read k (now_check e) w') = None"
  shows "fst (get_stock_price e (PStr q) w) = fst (get_stock_price e (PStr q) w')"
    and "\<exists>rest. trace (snd (get_stock_price e (PStr q) w))
                  = trace w @ CacheRead k # SymbolLookup q # rest"
    and "API_CALL_CACHE (snd (get_stock_price e (PStr q) w)) = API_CALL_CACHE w
         \<or> (\<exists>r. fst (get_stock_price e (PStr q) w) = Inr r
                \<and> API_CALL_CACHE (snd (get_stock_price e (PStr q) w))
                    = (API_CALL_CACHE w)(k \<mapsto> (r, now_store e)))"
proof -
  note pre = assms(1) assms(2) assms(3) assms(4)
  have "fst (get_stock_price e (PStr q) w) = fst (get_stock_price e (PStr q) w')
      \<and> (\<exists>rest. trace (snd (get_stock_price e (PStr q) w))
                  = trace w @ CacheRead k # SymbolLookup q # rest)
      \<and> (API_CALL_CACHE (snd (get_stock_price e (PStr q) w)) = API_CALL_CACHE w
         \<or> (\<exists>r. fst (get_stock_price e (PStr q) w) = Inr r
                \<and> API_CALL_CACHE (snd (get_stock_price e (PStr q) w))
                    = (API_CALL_CACHE w)(k \<mapsto> (r, now_store e))))"
  proof (cases "get_symbol (builtins e) (PStr q)")
    case None
    show ?thesis
      by (simp add: get_stock_price_unknown [OF pre assms(5) None]
            get_stock_price_unknown [OF pre assms(6) None] log_event_def)
  next
    case (Some symbol)
    define w3 where "w3 = log_event (HttpGet (price_url symbol key))
                  (log_event (SymbolLookup q) (log_event (CacheRead k) w))"
    define w3' where "w3' = log_event (HttpGet (price_url symbol key))
                  (log_event (SymbolLookup q) (log_event (CacheRead k) w'))"
    note fetch = get_stock_price_fetch [OF pre assms(5) Some w3_def]
    note fetch' = get_stock_price_fetch [OF pre assms(6) Some w3'_def]
    let ?m = "requests_get e (price_url symbol key)"
    show ?thesis
    proof (cases "bind ?m (price_body e symbol k w3)")
      case (Inl x)
      with request_two_states [where m = ?m and e = e and symbol = symbol and k = k and w = w3 and w' = w3']
      have "bind ?m (price_body e symbol k w3') = Inl x" by simp
      then show ?thesis
        by (simp add: fetch(2) [OF Inl] fetch'(2) w3_def log_event_def)
    next
      case (Inr pair)
      obtain r w1 where pair: "pair = (r, w1)" by (cases pair)
      from request_two_states [where m = ?m and e = e and symbol = symbol and k = k and w = w3 and w' = w3'] Inr pair
      consider "w1 = w3" "bind ?m (price_body e symbol k w3') = Inr (r, w3')"
        | "w1 = cache_write k r (now_store e) w3"
          "bind ?m (price_body e symbol k w3') = Inr (r, cache_write k r (now_store e) w3')"
        by auto
      then show ?thesis
      proof cases
        case 1
        from Inr pair 1(1) have "bind ?m (price_body e symbol k w3) = Inr (r, w3)" by simp
        then show ?thesis
          by (simp add: fetch(1) fetch'(1) [OF 1(2)] w3_def log_event_def)
      next
        case 2
        from Inr pair 2(1)
        have "bind ?m (price_body e symbol k w3) = Inr (r, cache_write k r (now_store e) w3)"
          by simp
        then show ?thesis
          by (simp add: fetch(1) fetch'(1) [OF 2(2)] w3_def log_event_def cache_write_def)
      qed
    qed
  qed
  then show "fst (get_stock_price e (PStr q) w) = fst (get_stock_price e (PStr q) w')"
    and "\<exists>rest. trace (snd (get_stock_price e (PStr q) w))
                  = trace w @ CacheRead k # SymbolLookup q # rest"
    and "API_CALL_CACHE (snd (get_stock_price e (PStr q) w)) = API_CALL_CACHE w
         \<or> (\<exists>r. fst (get_stock_price e (PStr q) w) = Inr r
                \<and> API_CALL_CACHE (snd (get_stock_price e (PStr q) w))
                    = (API_CALL_CACHE w)(k \<mapsto> (r, now_store e)))"
    by blast+
qed

subsection \<open>The memory buffer\<close>

lemma last_n_short: "length xs \<le> n \<Longrightarrow> last_n n xs = xs"
  by (simp add: last_n_def)

lemma last_n_length: "length (last_n n xs) \<le> n"
  by (simp add: last_n_def)

lemma last_n_append_last_n: "last_n n (last_n n xs @ ys) = last_n n (xs @ ys)"
proof (cases "length xs \<le> n")
  case True
  then show ?thesis by (simp add: last_n_def)
next
  case False
  then have "length xs - n + n = length xs" by simp
  then show ?thesis by (simp add: last_n_def add.commute)
qed

lemma add_to_memory_valid:
  "u \<noteq> [] \<Longrightarrow> b \<noteq> [] \<Longrightarrow>
   add_to_memory rt (PStr u) (PStr b) mem
     = Inr (last_n MAX_MEMORY (mem @ [(str_strip rt u, str_strip rt b)]))"
  by (simp add: add_to_memory_def Let_def last_n_short)

lemma add_all_valid:
  "list_all (\<lambda>p. fst p \<noteq> [] \<and> snd p \<noteq> []) ps \<Longrightarrow>
   add_all rt (map as_args ps) mem =
     Inr (if ps = [] then mem else last_n MAX_MEMORY (mem @ map (stored rt) ps))"
proof (induction ps arbitrary: mem)
  case Nil
  then show ?case by simp
next
  case (Cons p ps)
  obtain u b where p: "p = (u, b)" by (cases p)
  from Cons.prems p have ne: "u \<noteq> []" "b \<noteq> []"
    and rest: "list_all (\<lambda>p. fst p \<noteq> [] \<and> snd p \<noteq> []) ps"
    by simp_all
  show ?case
    using Cons.IH [OF rest] ne
    by (simp add: p as_args_def add_to_memory_valid stored_def last_n_append_last_n)
qed

section \<open>Claims about the market-data client\<close>

text \<open>
  C1. A query \<open>q\<close> that passes validation and resolves to ticker \<open>T\<close>, with the credential
  configured and no fresh cache entry for it, whose request is answered by a quote object
  holding a price \<open>p\<close> that \<^verbatim>\<open>float()\<close> accepts, a change \<open>c\<close> and a change-percent string \<open>s\<close>:
  \<^verbatim>\<open>get_stock_price\<close> returns the direction indicator (down exactly when \<open>s\<close> without its
  trailing \<open>%\<close> starts with \<open>-\<close>, up otherwise), the ticker, the price formatted by
  \<^verbatim>\<open>.2f\<close>, the change as given and the stripped change-percent; and the state it leaves holds
  that very string under the key \<open>"price_" + q.lower()\<close>, stamped with the time of the write.
  Here \<^verbatim>\<open>lower()\<close>, \<^verbatim>\<open>float()\<close> and \<^verbatim>\<open>.2f\<close> are the runtime's, whatever they are.
\<close>

theorem get_stock_price_formats_and_caches:
  assumes "q \<noteq> []"
      and "ALPHAVANTAGE_API_KEY e = Some key" and "key \<noteq> []"
      and "fst (cache_read (''price_'' @ str_lower (builtins e) q) (now_check e) w) = None"
      and "get_symbol (builtins e) (PStr q) = Some T"
      and "requests_get e (price_url T key) = Inr (PDict data)"
      and "map_of data ''Error Message'' = None"
      and "map_of data ''Global Quote'' = Some (PDict quote)"
      and "map_of quote ''05. price'' = Some p" and "py_float (builtins e) p = Inr x"
      and "map_of quote ''09. change'' = Some c"
      and "map_of quote ''10. change percent'' = Some (PStr s)"
      and "stripped = rev (dropWhile (\<lambda>ch. ch = CHR ''%'') (rev s))"
      and "line = (if prefix ''-'' stripped then chart_down else chart_up) @ '' '' @ T
                    @ '' is trading at $'' @ format_2f (builtins e) x
                    @ '', change: '' @ py_str (builtins e) c @ '' ('' @ stripped @ ''%)''"
  shows "fst (get_stock_price e (PStr q) w) = Inr line
       \<and> API_CALL_CACHE (snd (get_stock_price e (PStr q) w))
            (''price_'' @ str_lower (builtins e) q)
            = Some (line, now_store e)
       \<and> trace (snd (get_stock_price e (PStr q) w))
            = trace w @ [CacheRead (''price_'' @ str_lower (builtins e) q), SymbolLookup q,
                         HttpGet (price_url T key),
                         CacheWrite (''price_'' @ str_lower (builtins e) q)]"
proof -
  define k where "k = ''price_'' @ str_lower (builtins e) q"
  define w3 where "w3 = log_event (HttpGet (price_url T key))
                  (log_event (SymbolLookup q) (log_event (CacheRead k) w))"
  have stripped: "stripped = py_rstrip (\<lambda>ch. ch = CHR ''%'') s"
    by (simp add: assms(13) py_rstrip_def)
  have line: "line = price_line (if startswith stripped ''-'' then chart_down else chart_up)
                      T (format_2f (builtins e) x) (py_str (builtins e) c) stripped"
    by (simp add: assms(14) price_line_def startswith_prefix)
  have miss: "fst (cache_read k (now_check e) w) = None"
    unfolding k_def by (rule assms(4))
  have body: "price_body e T k w3 (PDict data)
                = Inr (line, cache_write k line (now_store e) w3)"
    by (rule price_body_quote [OF assms(7) assms(8) assms(9) assms(10) _ _ stripped line])
       (simp_all add: assms(11) assms(12))
  have call: "get_stock_price e (PStr q) w = (Inr line, cache_write k line (now_store e) w3)"
    by (rule get_stock_price_fetch(1) [OF assms(1) assms(2) assms(3) k_def miss assms(5) w3_def])
       (simp add: assms(6) body)
  show ?thesis
    unfolding k_def [symmetric]
    by (simp add: call cache_write_def log_event_def w3_def)
qed

theorem get_stock_price_formats_and_caches_witness:
  "fst (get_stock_price
          (mock_env (Some ''demo'')
             (Inr (PDict [(''Global Quote'',
                     PDict [(''05. price'', PStr ''150.25''), (''09. change'', PStr ''1.20''),
                            (''10. change percent'', PStr ''0.80%'')])])) 0 7)
          (PStr ''AAPL'') empty_world)
     = Inr (chart_up @ '' AAPL is trading at $150.25, change: 1.20 (0.80%)'')
   \<and> API_CALL_CACHE (snd (get_stock_price
          (mock_env (Some ''demo'')
             (Inr (PDict [(''Global Quote'',
                     PDict [(''05. price'', PStr ''150.25''), (''09. change'', PStr ''1.20''),
                            (''10. change percent'', PStr ''0.80%'')])])) 0 7)
          (PStr ''AAPL'') empty_world)) ''price_aapl''
     = Some (chart_up @ '' AAPL is trading at $150.25, change: 1.20 (0.80%)'', 7)"
proof -
  let ?quote = "[(''05. price'', PStr ''150.25''), (''09. change'', PStr ''1.20''),
                 (''10. change percent'', PStr ''0.80%'')] :: (string \<times> int pyval) list"
  let ?data = "[(''Global Quote'', PDict ?quote)]"
  let ?e = "mock_env (Some ''demo'') (Inr (PDict ?data)) 0 7"
  have rt: "builtins ?e = sample_runtime"
    by (simp add: mock_env_def)
  have key: "ALPHAVANTAGE_API_KEY ?e = Some ''demo''"
    and nonempty: "''demo'' \<noteq> []" "''AAPL'' \<noteq> []"
    by (simp_all add: mock_env_def)
  have miss: "fst (cache_read (''price_'' @ str_lower (builtins ?e) ''AAPL'') (now_check ?e)
                     empty_world) = None"
    by (simp add: cache_read_def empty_world_def)
  have sym: "get_symbol (builtins ?e) (PStr ''AAPL'') = Some ''AAPL''"
    unfolding rt by (rule get_symbol_AAPL)
  have resp: "requests_get ?e (price_url ''AAPL'' ''demo'') = Inr (PDict ?data)"
    by (simp add: mock_env_def)
  have fields: "map_of ?data ''Error Message'' = None"
    "map_of ?data ''Global Quote'' = Some (PDict ?quote)"
    "map_of ?quote ''05. price'' = Some (PStr ''150.25'')"
    "map_of ?quote ''09. change'' = Some (PStr ''1.20'')"
    "map_of ?quote ''10. change percent'' = Some (PStr ''0.80%'')"
    by simp_all
  have price: "py_float (builtins ?e) (PStr ''150.25'') = Inr 15025"
    unfolding rt by (simp add: sample_fields cents_150_25)
  have stripped: "''0.80'' = rev (dropWhile (\<lambda>ch. ch = CHR ''%'') (rev ''0.80%''))"
    by simp
  have line: "chart_up @ '' AAPL is trading at $150.25, change: 1.20 (0.80%)''
      = (if prefix ''-'' ''0.80'' then chart_down else chart_up) @ '' '' @ ''AAPL''
          @ '' is trading at $'' @ format_2f (builtins ?e) 15025
          @ '', change: '' @ py_str (builtins ?e) (PStr ''1.20'') @ '' ('' @ ''0.80'' @ ''%)''"
    unfolding rt by (simp add: sample_fields format_150_25)
  have k: "''price_'' @ str_lower (builtins ?e) ''AAPL'' = ''price_aapl''"
    unfolding rt by (simp add: lower_AAPL)
  have t: "now_store ?e = 7"
    by (simp add: mock_env_def)
  from get_stock_price_formats_and_caches
      [OF nonempty(2) key nonempty(1) miss sym resp fields(1) fields(2) fields(3) price
          fields(4) fields(5) stripped line]
  show ?thesis
    unfolding k t by blast
qed

text \<open>
  C2. \<^verbatim>\<open>get_stock_price\<close> is meant to return a string on every outcome, and its sibling
  \<^verbatim>\<open>get_intraday_data\<close> does (it catches \<^verbatim>\<open>Exception\<close>). Its own handlers catch only the
  exceptions of \<^verbatim>\<open>requests\<close>, \<^verbatim>\<open>KeyError\<close> and \<^verbatim>\<open>ValueError\<close>: on the payload
  \<^verbatim>\<open>{"Global Quote": {"05. price": null}}\<close> the call \<^verbatim>\<open>float(None)\<close> raises \<^verbatim>\<open>TypeError\<close>, which
  reaches the caller.
\<close>

theorem get_stock_price_null_price_raises:
  "fst (get_stock_price
          (mock_env (Some ''demo'')
             (Inr (PDict [(''Global Quote'', PDict [(''05. price'', PNone)])])) 0 7)
          (PStr ''AAPL'') empty_world)
     = Inl (TypeError (''float() argument must be a string or a real number, not ''
                        @ quoted ''NoneType''))"
  by (simp add: get_stock_price_def mock_eval get_symbol_AAPL lower_AAPL log_event_def
        price_body_def sample_fields cpython_err_text_def Let_def)

theorem get_stock_price_null_price_raises_witness:
  "\<nexists>s. fst (get_stock_price
          (mock_env (Some ''demo'')
             (Inr (PDict [(''Global Quote'', PDict [(''05. price'', PNone)])])) 0 7)
          (PStr ''AAPL'') empty_world) = Inr s"
  using get_stock_price_null_price_raises by simp

text \<open>
  C3. The cache is read and written by \<^verbatim>\<open>get_stock_price\<close> only, under the key \<open>k\<close> of the
  query. In a state whose entry for \<open>k\<close> is the pair \<open>(v, t0)\<close> that a write of \<open>v\<close> at time \<open>t0\<close>
  leaves, a call made less than 60 minutes (of \<^verbatim>\<open>datetime\<close> microseconds) after \<open>t0\<close> returns
  exactly \<open>v\<close>, with no symbol lookup, no request and the cache as it was. A call made at 60
  minutes or later behaves as a miss: it returns what it would return without the entry, and
  goes on to the symbol lookup. The stale read deletes nothing: the cache after the call is the
  cache before it, except when this call itself fetched a result and stored it under \<open>k\<close>.
\<close>

theorem cached_result_served_until_stale:
  assumes "q \<noteq> []"
      and "ALPHAVANTAGE_API_KEY e = Some key" and "key \<noteq> []"
      and "k = ''price_'' @ str_lower (builtins e) q"
      and "API_CALL_CACHE w k = Some (v, t0)"
  shows "(now_check e - t0 < 60 * 60 * 1000000 \<longrightarrow>
            get_stock_price e (PStr q) w = (Inr v, w\<lparr>trace := trace w @ [CacheRead k]\<rparr>))
       \<and> (60 * 60 * 1000000 \<le> now_check e - t0 \<longrightarrow>
            fst (get_stock_price e (PStr q) w)
              = fst (get_stock_price e (PStr q)
                       (w\<lparr>API_CALL_CACHE := (API_CALL_CACHE w)(k := None)\<rparr>))
          \<and> (\<exists>rest. trace (snd (get_stock_price e (PStr q) w))
                        = trace w @ CacheRead k # SymbolLookup q # rest)
          \<and> (API_CALL_CACHE (snd (get_stock_price e (PStr q) w)) = API_CALL_CACHE w
             \<or> (\<exists>r. fst (get_stock_price e (PStr q) w) = Inr r
                    \<and> API_CALL_CACHE (snd (get_stock_price e (PStr q) w))
                        = (API_CALL_CACHE w)(k \<mapsto> (r, now_store e)))))"
proof -
  note pre = assms(1) assms(2) assms(3) assms(4)
  have fresh: "get_stock_price e (PStr q) w = (Inr v, w\<lparr>trace := trace w @ [CacheRead k]\<rparr>)"
    if "now_check e - t0 < 60 * 60 * 1000000"
  proof -
    from that assms(5) have "fst (cache_read k (now_check e) w) = Some v"
      by (simp add: cache_read_def CACHE_DURATION_def)
    from get_stock_price_hit [OF pre this] show ?thesis
      by (simp add: log_event_def)
  qed
  have stale: "fst (get_stock_price e (PStr q) w)
              = fst (get_stock_price e (PStr q)
                       (w\<lparr>API_CALL_CACHE := (API_CALL_CACHE w)(k := None)\<rparr>))
          \<and> (\<exists>rest. trace (snd (get_stock_price e (PStr q) w))
                        = trace w @ CacheRead k # SymbolLookup q # rest)
          \<and> (API_CALL_CACHE (snd (get_stock_price e (PStr q) w)) = API_CALL_CACHE w
             \<or> (\<exists>r. fst (get_stock_price e (PStr q) w) = Inr r
                    \<and> API_CALL_CACHE (snd (get_stock_price e (PStr q) w))
                        = (API_CALL_CACHE w)(k \<mapsto> (r, now_store e))))"
    if "60 * 60 * 1000000 \<le> now_check e - t0"
  proof -
    from that assms(5) have miss: "fst (cache_read k (now_check e) w) = None"
      by (simp add: cache_read_def CACHE_DURATION_def)
    have gone: "fst (cache_read k (now_check e)
                       (w\<lparr>API_CALL_CACHE := (API_CALL_CACHE w)(k := None)\<rparr>)) = None"
      by (simp add: cache_read_def)
    from get_stock_price_miss [OF pre miss gone] show ?thesis
      by blast
  qed
  from fresh stale show ?thesis by blast
qed

theorem cached_result_served_until_stale_witness:
  "fst (get_stock_price (mock_env (Some ''demo'') (Inl (Timeout ''read timed out'')) 3599999999 0)
          (PStr ''AAPL'') (cache_write ''price_aapl'' ''cached quote'' 0 empty_world))
     = Inr ''cached quote''
   \<and> fst (get_stock_price (mock_env (Some ''demo'') (Inl (Timeout ''read timed out'')) 3600000000 0)
          (PStr ''AAPL'') (cache_write ''price_aapl'' ''cached quote'' 0 empty_world))
     = Inr timeout_msg
   \<and> API_CALL_CACHE
        (snd (get_stock_price
                (mock_env (Some ''demo'') (Inl (Timeout ''read timed out'')) 3600000000 0)
                (PStr ''AAPL'') (cache_write ''price_aapl'' ''cached quote'' 0 empty_world)))
        ''price_aapl''
     = Some (''cached quote'', 0)"
proof -
  let ?w = "cache_write ''price_aapl'' ''cached quote'' 0 empty_world"
  let ?e1 = "mock_env (Some ''demo'') (Inl (Timeout ''read timed out'')) 3599999999 0 :: int env"
  let ?e2 = "mock_env (Some ''demo'') (Inl (Timeout ''read timed out'')) 3600000000 0 :: int env"
  have nonempty: "''AAPL'' \<noteq> []" "''demo'' \<noteq> []"
    by simp_all
  have key: "ALPHAVANTAGE_API_KEY ?e1 = Some ''demo''" "ALPHAVANTAGE_API_KEY ?e2 = Some ''demo''"
    by (simp_all add: mock_env_def)
  have k: "''price_aapl'' = ''price_'' @ str_lower (builtins ?e1) ''AAPL''"
    "''price_aapl'' = ''price_'' @ str_lower (builtins ?e2) ''AAPL''"
    by (simp_all add: mock_env_def lower_AAPL)
  have entry: "API_CALL_CACHE ?w ''price_aapl'' = Some (''cached quote'', 0)"
    by (simp add: cache_write_def log_event_def)
  have early: "now_check ?e1 - 0 < 60 * 60 * 1000000"
    and late: "60 * 60 * 1000000 \<le> now_check ?e2 - 0"
    by (simp_all add: mock_env_def)
  from cached_result_served_until_stale [OF nonempty(1) key(1) nonempty(2) k(1) entry] early
  have first: "fst (get_stock_price ?e1 (PStr ''AAPL'') ?w) = Inr ''cached quote''"
    by simp
  have emptied: "fst (get_stock_price ?e2 (PStr ''AAPL'')
                        (?w\<lparr>API_CALL_CACHE := (API_CALL_CACHE ?w)(''price_aapl'' := None)\<rparr>))
                   = Inr timeout_msg"
    by (simp add: get_stock_price_def mock_eval get_symbol_AAPL lower_AAPL log_event_def
          cache_write_def Let_def)
  from cached_result_served_until_stale [OF nonempty(1) key(2) nonempty(2) k(2) entry] late emptied
  have second: "fst (get_stock_price ?e2 (PStr ''AAPL'') ?w) = Inr timeout_msg"
    by simp
  have third: "API_CALL_CACHE (snd (get_stock_price ?e2 (PStr ''AAPL'') ?w)) ''price_aapl''
                 = Some (''cached quote'', 0)"
    by (simp add: get_stock_price_def mock_eval get_symbol_AAPL lower_AAPL log_event_def
          cache_write_def CACHE_DURATION_def Let_def)
  from first second third show ?thesis by blast
qed

text \<open>
  C6. With the credential not configured (unset, or set to the empty string),
  \<^verbatim>\<open>get_stock_price\<close> on a non-empty string returns the configuration-missing message and
  leaves the state as it was: no cache read, no symbol lookup and no request is logged.
\<close>

theorem missing_credential_first:
  assumes "q \<noteq> []" and "ALPHAVANTAGE_API_KEY e = None \<or> ALPHAVANTAGE_API_KEY e = Some []"
  shows "get_stock_price e (PStr q) w = (Inr key_missing_msg, w)
       \<and> key_missing_msg = warning_sign
           @ '' Alpha Vantage API key not configured. Please set ALPHAVANTAGE_API_KEY in .env''"
  using assms by (auto simp: get_stock_price_def key_missing_msg_def)

theorem missing_credential_first_witness:
  "get_stock_price (mock_env None (Inl (Timeout ''unused'')) 0 0) (PStr ''Apple'') empty_world
     = (Inr key_missing_msg, empty_world)
   \<and> trace empty_world = []"
  using missing_credential_first
          [of "''Apple''" "mock_env None (Inl (Timeout ''unused'')) 0 0" empty_world]
  by (simp add: mock_env_def empty_world_def)

text \<open>
  C7 (as amended). Of the three fields only the price is required. When the quote object has
  no price field, \<^verbatim>\<open>get_stock_price\<close> returns the data-unavailable message naming the resolved
  ticker and writes nothing to the cache. When the price is there, an absent change or
  change-percent is printed as \<open>N/A\<close> in the formatted price line.
\<close>

theorem only_price_field_required:
  assumes "q \<noteq> []"
      and "ALPHAVANTAGE_API_KEY e = Some key" and "key \<noteq> []"
      and "fst (cache_read (''price_'' @ str_lower (builtins e) q) (now_check e) w) = None"
      and "get_symbol (builtins e) (PStr q) = Some T"
      and "requests_get e (price_url T key) = Inr (PDict data)"
      and "map_of data ''Error Message'' = None"
      and "map_of data ''Global Quote'' = Some (PDict quote)"
  shows "(map_of quote ''05. price'' = None \<longrightarrow>
            fst (get_stock_price e (PStr q) w) = Inr (no_data_msg T)
          \<and> no_data_msg T = warning_sign @ '' Could not retrieve stock data for '' @ T
                               @ ''. Please try again.''
          \<and> API_CALL_CACHE (snd (get_stock_price e (PStr q) w)) = API_CALL_CACHE w)
       \<and> (map_of quote ''05. price'' = Some p \<and> py_float (builtins e) p = Inr x
          \<and> map_of quote ''09. change'' = co
          \<and> map_of quote ''10. change percent'' = map_option PStr so
          \<and> stripped = py_rstrip (\<lambda>ch. ch = CHR ''%'') (case so of None \<Rightarrow> ''N/A'' | Some s \<Rightarrow> s)
          \<longrightarrow>
            fst (get_stock_price e (PStr q) w)
              = Inr ((if startswith stripped ''-'' then chart_down else chart_up) @ '' '' @ T
                     @ '' is trading at $'' @ format_2f (builtins e) x @ '', change: ''
                     @ (case co of None \<Rightarrow> ''N/A'' | Some c \<Rightarrow> py_str (builtins e) c)
                     @ '' ('' @ stripped @ ''%)''))"
proof -
  define k where "k = ''price_'' @ str_lower (builtins e) q"
  define w3 where "w3 = log_event (HttpGet (price_url T key))
                  (log_event (SymbolLookup q) (log_event (CacheRead k) w))"
  have miss: "fst (cache_read k (now_check e) w) = None"
    unfolding k_def by (rule assms(4))
  note fetch = get_stock_price_fetch(1) [OF assms(1) assms(2) assms(3) k_def miss assms(5) w3_def]
  have absent: "fst (get_stock_price e (PStr q) w) = Inr (no_data_msg T)
          \<and> no_data_msg T = warning_sign @ '' Could not retrieve stock data for '' @ T
                               @ ''. Please try again.''
          \<and> API_CALL_CACHE (snd (get_stock_price e (PStr q) w)) = API_CALL_CACHE w"
    if "map_of quote ''05. price'' = None"
  proof -
    have "price_body e T k w3 (PDict data) = Inr (no_data_msg T, w3)"
      by (rule price_body_no_price [OF assms(7) assms(8) that])
    then have "get_stock_price e (PStr q) w = (Inr (no_data_msg T), w3)"
      by (intro fetch) (simp add: assms(6))
    then show ?thesis
      by (simp add: w3_def log_event_def no_data_msg_def)
  qed
  have present: "fst (get_stock_price e (PStr q) w)
              = Inr ((if startswith stripped ''-'' then chart_down else chart_up) @ '' '' @ T
                     @ '' is trading at $'' @ format_2f (builtins e) x @ '', change: ''
                     @ (case co of None \<Rightarrow> ''N/A'' | Some c \<Rightarrow> py_str (builtins e) c)
                     @ '' ('' @ stripped @ ''%)'')"
    if price: "map_of quote ''05. price'' = Some p" "py_float (builtins e) p = Inr x"
      and change: "map_of quote ''09. change'' = co"
      and percent: "map_of quote ''10. change percent'' = map_option PStr so"
      and stripped: "stripped = py_rstrip (\<lambda>ch. ch = CHR ''%'') (case so of None \<Rightarrow> ''N/A'' | Some s \<Rightarrow> s)"
  proof -
    define line where "line = price_line (if startswith stripped ''-'' then chart_down else chart_up)
        T (format_2f (builtins e) x)
        (py_str (builtins e) (case co of None \<Rightarrow> PStr ''N/A'' | Some v \<Rightarrow> v)) stripped"
    have "price_body e T k w3 (PDict data) = Inr (line, cache_write k line (now_store e) w3)"
      by (rule price_body_quote [OF assms(7) assms(8) price(1) price(2) _ _ stripped line_def])
         (simp_all add: change percent split: option.splits)
    then have "get_stock_price e (PStr q) w = (Inr line, cache_write k line (now_store e) w3)"
      by (intro fetch) (simp add: assms(6))
    then show ?thesis
      by (simp add: line_def price_line_def split: option.splits)
  qed
  from absent present show ?thesis by blast
qed

theorem only_price_field_required_witness:
  "fst (get_stock_price
          (mock_env (Some ''demo'')
             (Inr (PDict [(''Global Quote'', PDict [(''09. change'', PStr ''1.20'')])])) 0 7)
          (PStr ''AAPL'') empty_world)
     = Inr (no_data_msg ''AAPL'')"
proof -
  let ?quote = "[(''09. change'', PStr ''1.20'')] :: (string \<times> int pyval) list"
  let ?data = "[(''Global Quote'', PDict ?quote)]"
  let ?e = "mock_env (Some ''demo'') (Inr (PDict ?data)) 0 7"
  have rt: "builtins ?e = sample_runtime"
    by (simp add: mock_env_def)
  have key: "ALPHAVANTAGE_API_KEY ?e = Some ''demo''"
    and nonempty: "''demo'' \<noteq> []" "''AAPL'' \<noteq> []"
    by (simp_all add: mock_env_def)
  have miss: "fst (cache_read (''price_'' @ str_lower (builtins ?e) ''AAPL'') (now_check ?e)
                     empty_world) = None"
    by (simp add: cache_read_def empty_world_def)
  have sym: "get_symbol (builtins ?e) (PStr ''AAPL'') = Some ''AAPL''"
    unfolding rt by (rule get_symbol_AAPL)
  have resp: "requests_get ?e (price_url ''AAPL'' ''demo'') = Inr (PDict ?data)"
    by (simp add: mock_env_def)
  have fields: "map_of ?data ''Error Message'' = None"
    "map_of ?data ''Global Quote'' = Some (PDict ?quote)" "map_of ?quote ''05. price'' = None"
    by simp_all
  show ?thesis
    using only_price_field_required
      [OF nonempty(2) key nonempty(1) miss sym resp fields(1) fields(2)] fields(3)
    by blast
qed

text \<open>
  C7 as first stated fails: with the price present and both other fields absent the result is
  a formatted price line, not the data-unavailable message.
\<close>

theorem absent_change_fields_still_priced:
  "fst (get_stock_price
          (mock_env (Some ''demo'')
             (Inr (PDict [(''Global Quote'', PDict [(''05. price'', PStr ''150.25'')])])) 0 7)
          (PStr ''AAPL'') empty_world)
     = Inr (chart_up @ '' AAPL is trading at $150.25, change: N/A (N/A%)'')
   \<and> chart_up @ '' AAPL is trading at $150.25, change: N/A (N/A%)'' \<noteq> no_data_msg ''AAPL''"
  by (simp add: get_stock_price_def mock_eval get_symbol_AAPL lower_AAPL log_event_def
        price_body_def price_line_def startswith_def py_rstrip_def sample_fields cents_150_25
        format_150_25 cache_write_def Let_def chart_up_def no_data_msg_def warning_sign_def)

text \<open>
  C8 (as amended). For a non-empty string query and an interval that is none of \<open>1min\<close>,
  \<open>5min\<close>, \<open>15min\<close>, \<open>30min\<close>, \<open>60min\<close>, \<^verbatim>\<open>get_intraday_data\<close> returns the invalid-interval
  message and leaves the state as it was: no symbol lookup and no request is logged. The
  query is validated before the interval: an empty or non-string query gets the
  invalid-query message, whatever the interval.
\<close>

theorem invalid_interval_before_lookup:
  "(q \<noteq> [] \<and> interval \<notin> PStr ` set valid_intervals \<longrightarrow>
      get_intraday_data e (PStr q) interval w = (invalid_interval_msg, w))
   \<and> (\<not> truthy (builtins e) query \<or> \<not> is_str query \<longrightarrow>
      get_intraday_data e query interval w = (invalid_query_short, w))
   \<and> valid_intervals = [''1min'', ''5min'', ''15min'', ''30min'', ''60min'']"
  by (simp add: get_intraday_data_def valid_intervals_def)

theorem invalid_interval_before_lookup_witness:
  "get_intraday_data (mock_env (Some ''demo'') (Inl (Timeout ''unused'')) 0 0)
      (PStr ''Apple'') (PStr ''2min'') empty_world
     = (invalid_interval_msg, empty_world)"
  using invalid_interval_before_lookup
          [of "''Apple''" "PStr ''2min''" "mock_env (Some ''demo'') (Inl (Timeout ''unused'')) 0 0"
              empty_world]
  by (simp add: valid_intervals_def)

text \<open>
  C8 as first stated ("for every query") fails on the empty query: the answer is the
  invalid-query message, not the invalid-interval message.
\<close>

theorem invalid_interval_empty_query:
  "fst (get_intraday_data (mock_env (Some ''demo'') (Inl (Timeout ''unused'')) 0 0)
          (PStr []) (PStr ''2min'') empty_world)
     = invalid_query_short
   \<and> invalid_query_short \<noteq> invalid_interval_msg"
  by (simp add: get_intraday_data_def invalid_query_short_def invalid_interval_msg_def mock_env_def)

section \<open>Claims about the symbol resolver\<close>

text \<open>
  C4. On a runtime whose \<^verbatim>\<open>lower()\<close> and \<^verbatim>\<open>strip()\<close> treat ASCII text as Python's do, every alias
  of the table resolves to its ticker, and every ticker of the table, written in any letter
  case, resolves to itself: this holds for every string that \<^verbatim>\<open>lower()\<close> maps to the same text
  as the ticker, and in particular for every string that differs from the ticker only in the
  case of its ASCII letters.
\<close>

theorem resolve_table_entries:
  assumes "python_strings rt"
  shows "((A, T) \<in> set COMPANY_SYMBOLS \<longrightarrow> get_symbol rt (PStr A) = Some T)
       \<and> (T \<in> set (map snd COMPANY_SYMBOLS) \<and> str_lower rt s = str_lower rt T
            \<longrightarrow> get_symbol rt (PStr s) = Some T)
       \<and> (T \<in> set (map snd COMPANY_SYMBOLS) \<and> ascii_lower s' = ascii_lower T
            \<longrightarrow> get_symbol rt (PStr s') = Some T)"
proof -
  have aliases: "list_all (\<lambda>(a, t). a \<noteq> [] \<and> is_ascii a
        \<and> (case map_of (map (\<lambda>t. (ascii_lower t, t)) (map snd COMPANY_SYMBOLS))
                   (ascii_strip (ascii_lower a)) of
              Some ticker \<Rightarrow> Some ticker
            | None \<Rightarrow> name_loop (ascii_strip (ascii_lower a)) COMPANY_SYMBOLS) = Some t)
      COMPANY_SYMBOLS"
    unfolding lowered_tickers
    by (simp add: COMPANY_SYMBOLS_def string_eval is_ascii_def str_contains_Cons str_contains_Nil
          del: str_contains.simps)
  have tickers: "list_all (\<lambda>t. t \<noteq> [] \<and> is_ascii t
        \<and> (case map_of (map (\<lambda>t. (ascii_lower t, t)) (map snd COMPANY_SYMBOLS))
                   (ascii_strip (ascii_lower t)) of
              Some ticker \<Rightarrow> Some ticker
            | None \<Rightarrow> name_loop (ascii_strip (ascii_lower t)) COMPANY_SYMBOLS) = Some t)
      (map snd COMPANY_SYMBOLS)"
    unfolding lowered_tickers
    by (simp add: COMPANY_SYMBOLS_def string_eval is_ascii_def)
  have first: "get_symbol rt (PStr A) = Some T" if "(A, T) \<in> set COMPANY_SYMBOLS"
  proof -
    from aliases that have A: "A \<noteq> []" "is_ascii A"
      and found: "(case map_of (map (\<lambda>t. (ascii_lower t, t)) (map snd COMPANY_SYMBOLS))
                   (ascii_strip (ascii_lower A)) of
              Some ticker \<Rightarrow> Some ticker
            | None \<Rightarrow> name_loop (ascii_strip (ascii_lower A)) COMPANY_SYMBOLS) = Some T"
      unfolding list_all_iff by blast+
    have "str_lower rt A = ascii_lower A"
      using assms A(2) by (rule python_strings_lower)
    moreover have "is_ascii (ascii_lower A)"
      using A(2) by (simp add: is_ascii_lower)
    ultimately show ?thesis
      using get_symbol_ascii_norm [OF assms A(1)] found by simp
  qed
  have second: "get_symbol rt (PStr s) = Some T"
    if T: "T \<in> set (map snd COMPANY_SYMBOLS)" and same: "str_lower rt s = str_lower rt T" for s
  proof -
    from tickers T have T': "T \<noteq> []" "is_ascii T"
      and found: "(case map_of (map (\<lambda>t. (ascii_lower t, t)) (map snd COMPANY_SYMBOLS))
                   (ascii_strip (ascii_lower T)) of
              Some ticker \<Rightarrow> Some ticker
            | None \<Rightarrow> name_loop (ascii_strip (ascii_lower T)) COMPANY_SYMBOLS) = Some T"
      unfolding list_all_iff by blast+
    have lower_T: "str_lower rt T = ascii_lower T"
      using assms T'(2) by (rule python_strings_lower)
    have "s \<noteq> []"
    proof
      assume "s = []"
      then have "str_lower rt s = []"
        using python_strings_lower [OF assms, of "[]"] by (simp add: is_ascii_def ascii_lower_def)
      with same lower_T have "ascii_lower T = []"
        by simp
      with T'(1) show False
        by (simp add: ascii_lower_Nil_iff)
    qed
    moreover have "str_lower rt s = ascii_lower T"
      using same lower_T by simp
    moreover have "is_ascii (ascii_lower T)"
      using T'(2) by (simp add: is_ascii_lower)
    ultimately show ?thesis
      using get_symbol_ascii_norm [OF assms] found by simp
  qed
  have third: "get_symbol rt (PStr s') = Some T"
    if T: "T \<in> set (map snd COMPANY_SYMBOLS)" and same: "ascii_lower s' = ascii_lower T"
  proof -
    from tickers T have "is_ascii T"
      unfolding list_all_iff by blast
    then have "is_ascii (ascii_lower s')"
      by (simp add: same is_ascii_lower)
    then have "is_ascii s'"
      by (simp add: is_ascii_lower)
    then have "str_lower rt s' = ascii_lower s'"
      using assms by (simp add: python_strings_lower)
    moreover have "str_lower rt T = ascii_lower T"
      using assms \<open>is_ascii T\<close> by (rule python_strings_lower)
    ultimately have "str_lower rt s' = str_lower rt T"
      using same by simp
    with T show ?thesis by (rule second)
  qed
  from first second third show ?thesis by blast
qed

theorem resolve_table_entries_witness:
  "python_strings sample_runtime
   \<and> get_symbol sample_runtime (PStr ''coca cola'') = Some ''KO''
   \<and> get_symbol sample_runtime (PStr ''sHeL'') = Some ''SHEL''"
proof -
  have entry: "(''coca cola'', ''KO'') \<in> set COMPANY_SYMBOLS"
    and ticker: "''SHEL'' \<in> set (map snd COMPANY_SYMBOLS)"
    by (simp_all add: COMPANY_SYMBOLS_def)
  have same: "ascii_lower ''sHeL'' = ascii_lower ''SHEL''"
    by (simp add: ascii_lower_def lower_char_ascii)
  from resolve_table_entries [OF python_strings_sample, where A = "''coca cola''" and T = "''KO''"]
    entry
  have first: "get_symbol sample_runtime (PStr ''coca cola'') = Some ''KO''"
    by blast
  from resolve_table_entries [OF python_strings_sample, where T = "''SHEL''" and s' = "''sHeL''"]
    ticker same
  have second: "get_symbol sample_runtime (PStr ''sHeL'') = Some ''SHEL''"
    by blast
  from python_strings_sample first second show ?thesis by blast
qed

text \<open>
  C5. A non-empty query whose normalised form (\<^verbatim>\<open>lower()\<close>, then \<^verbatim>\<open>strip()\<close>) is the lower-cased
  form of no ticker resolves by containment: the result is the ticker of the first table entry,
  in table order, whose alias occurs in the normalised query as a contiguous substring; the
  result is "not found" exactly when no alias occurs in it. This holds whatever \<^verbatim>\<open>lower()\<close> and
  \<^verbatim>\<open>strip()\<close> compute.
\<close>

theorem resolve_by_alias_containment:
  assumes "q \<noteq> []"
      and "str_strip rt (str_lower rt q) \<notin> set (map (str_lower rt) (map snd COMPANY_SYMBOLS))"
  shows "(\<exists>i < length COMPANY_SYMBOLS.
            sublist (fst (COMPANY_SYMBOLS ! i)) (str_strip rt (str_lower rt q))
          \<and> (\<forall>j < i. \<not> sublist (fst (COMPANY_SYMBOLS ! j)) (str_strip rt (str_lower rt q)))
          \<and> get_symbol rt (PStr q) = Some (snd (COMPANY_SYMBOLS ! i)))
       \<or> ((\<forall>a \<in> set (map fst COMPANY_SYMBOLS). \<not> sublist a (str_strip rt (str_lower rt q)))
          \<and> get_symbol rt (PStr q) = None)"
proof -
  from assms(2)
  have "ticker_loop rt (str_strip rt (str_lower rt q)) (map snd COMPANY_SYMBOLS) = None"
    by (simp only: ticker_loop_None not_False_eq_True)
  with assms(1)
  have "get_symbol rt (PStr q) = name_loop (str_strip rt (str_lower rt q)) COMPANY_SYMBOLS"
    by (simp add: get_symbol_def Let_def)
  then show ?thesis
    using name_loop_first [of COMPANY_SYMBOLS "str_strip rt (str_lower rt q)"] by simp
qed

theorem resolve_by_alias_containment_witness:
  "''Buy Apple shares'' \<noteq> []
   \<and> str_strip sample_runtime (str_lower sample_runtime ''Buy Apple shares'')
       \<notin> set (map (str_lower sample_runtime) (map snd COMPANY_SYMBOLS))
   \<and> get_symbol sample_runtime (PStr ''Buy Apple shares'') = Some ''AAPL''"
proof -
  let ?qn = "''buy apple shares''"
  have norm: "str_strip sample_runtime (str_lower sample_runtime ''Buy Apple shares'') = ?qn"
    by (simp add: sample_runtime_def string_eval)
  have nonempty: "''Buy Apple shares'' \<noteq> []"
    by simp
  have "map (str_lower sample_runtime) (map snd COMPANY_SYMBOLS)
          = map fst (map (\<lambda>t. (ascii_lower t, t)) (map snd COMPANY_SYMBOLS))"
    by (simp add: sample_runtime_def comp_def)
  then have no_ticker: "str_strip sample_runtime (str_lower sample_runtime ''Buy Apple shares'')
                          \<notin> set (map (str_lower sample_runtime) (map snd COMPANY_SYMBOLS))"
    unfolding norm lowered_tickers by simp
  have apple: "sublist ''apple'' ?qn" and microsoft: "\<not> sublist ''microsoft'' ?qn"
    unfolding str_contains_sublist [symmetric]
    by (simp_all add: str_contains_Cons str_contains_Nil del: str_contains.simps)
  have entries: "COMPANY_SYMBOLS ! 0 = (''microsoft'', ''MSFT'')"
    "COMPANY_SYMBOLS ! 1 = (''apple'', ''AAPL'')" "''apple'' \<in> set (map fst COMPANY_SYMBOLS)"
    by (simp_all add: COMPANY_SYMBOLS_def)
  from resolve_by_alias_containment [OF nonempty no_ticker]
  have "get_symbol sample_runtime (PStr ''Buy Apple shares'') = Some ''AAPL''"
    unfolding norm
  proof
    assume "\<exists>i < length COMPANY_SYMBOLS. sublist (fst (COMPANY_SYMBOLS ! i)) ?qn
          \<and> (\<forall>j < i. \<not> sublist (fst (COMPANY_SYMBOLS ! j)) ?qn)
          \<and> get_symbol sample_runtime (PStr ''Buy Apple shares'') = Some (snd (COMPANY_SYMBOLS ! i))"
    then obtain i where i: "sublist (fst (COMPANY_SYMBOLS ! i)) ?qn"
      "\<forall>j < i. \<not> sublist (fst (COMPANY_SYMBOLS ! j)) ?qn"
      "get_symbol sample_runtime (PStr ''Buy Apple shares'') = Some (snd (COMPANY_SYMBOLS ! i))"
      by blast
    have "i \<noteq> 0"
      using i(1) microsoft entries(1) by (metis fst_conv)
    moreover have "\<not> 1 < i"
      using i(2) apple entries(2) by (metis fst_conv)
    ultimately have "i = 1" by simp
    with i(3) entries(2) show ?thesis by simp
  next
    assume "(\<forall>a \<in> set (map fst COMPANY_SYMBOLS). \<not> sublist a ?qn)
          \<and> get_symbol sample_runtime (PStr ''Buy Apple shares'') = None"
    with apple entries(3) show ?thesis by blast
  qed
  with nonempty no_ticker show ?thesis by blast
qed

section \<open>Claims about the conversation memory\<close>

text \<open>
  C9. A run of appends with valid arguments (non-empty strings) never raises, and after it the
  buffer holds at most \<open>MAX_MEMORY = 10\<close> pairs (from any buffer, as soon as one append
  ran). Started on the empty buffer it holds the last 10 of the appended pairs, each text
  stripped, in the order of the appends; after 13 appends these are all but the first 3.
\<close>

theorem memory_keeps_last_ten:
  assumes "list_all (\<lambda>p. fst p \<noteq> [] \<and> snd p \<noteq> []) ps"
  shows "\<exists>mem'. add_all rt (map as_args ps) mem = Inr mem'
           \<and> (ps \<noteq> [] \<or> length mem \<le> MAX_MEMORY \<longrightarrow> length mem' \<le> MAX_MEMORY)
           \<and> (mem = [] \<longrightarrow> mem' = last_n MAX_MEMORY (map (stored rt) ps))
           \<and> (mem = [] \<and> length ps = MAX_MEMORY + 3 \<longrightarrow> mem' = drop 3 (map (stored rt) ps))
           \<and> MAX_MEMORY = 10"
proof -
  let ?m = "if ps = [] then mem else last_n MAX_MEMORY (mem @ map (stored rt) ps)"
  have run: "add_all rt (map as_args ps) mem = Inr ?m"
    using assms by (rule add_all_valid)
  have bound: "ps \<noteq> [] \<or> length mem \<le> MAX_MEMORY \<longrightarrow> length ?m \<le> MAX_MEMORY"
    by (simp add: last_n_length)
  have from_empty: "mem = [] \<longrightarrow> ?m = last_n MAX_MEMORY (map (stored rt) ps)"
    by (auto simp: last_n_def)
  have thirteen: "mem = [] \<and> length ps = MAX_MEMORY + 3 \<longrightarrow> ?m = drop 3 (map (stored rt) ps)"
    by (auto simp: last_n_def)
  show ?thesis
    using run bound from_empty thirteen by (simp add: MAX_MEMORY_def)
qed

theorem memory_keeps_last_ten_witness:
  "add_all sample_runtime
     (map as_args
        [(''u1'', ''b1''), (''u2'', ''b2''), (''u3'', ''b3''), (''u4'', ''b4''),
         (''u5'', ''b5''), (''u6'', ''b6''), (''u7'', ''b7''), (''u8'', ''b8''),
         (''u9'', ''b9''), (''u10'', ''b10''), (''u11'', ''b11''), (''u12'', ''b12''),
         (''u13 '', '' b13'')]) []
     = Inr [(''u4'', ''b4''), (''u5'', ''b5''), (''u6'', ''b6''), (''u7'', ''b7''),
            (''u8'', ''b8''), (''u9'', ''b9''), (''u10'', ''b10''), (''u11'', ''b11''),
            (''u12'', ''b12''), (''u13'', ''b13'')]"
proof -
  let ?ps = "[(''u1'', ''b1''), (''u2'', ''b2''), (''u3'', ''b3''), (''u4'', ''b4''),
         (''u5'', ''b5''), (''u6'', ''b6''), (''u7'', ''b7''), (''u8'', ''b8''),
         (''u9'', ''b9''), (''u10'', ''b10''), (''u11'', ''b11''), (''u12'', ''b12''),
         (''u13 '', '' b13'')]"
  have valid: "list_all (\<lambda>p. fst p \<noteq> [] \<and> snd p \<noteq> []) ?ps"
    by simp
  have kept: "drop 3 (map (stored sample_runtime) ?ps)
      = [(''u4'', ''b4''), (''u5'', ''b5''), (''u6'', ''b6''), (''u7'', ''b7''),
         (''u8'', ''b8''), (''u9'', ''b9''), (''u10'', ''b10''), (''u11'', ''b11''),
         (''u12'', ''b12''), (''u13'', ''b13'')]"
    by (simp add: stored_def sample_runtime_def ascii_strip_def py_rstrip_def ascii_space_def)
  have count: "length ?ps = MAX_MEMORY + 3"
    by (simp add: MAX_MEMORY_def)
  from memory_keeps_last_ten [OF valid, of sample_runtime "[]"] count kept
  show ?thesis
    by auto
qed

text \<open>
  C10. \<^verbatim>\<open>add_to_memory\<close> raises exactly when one of the two arguments is the empty string,
  \<^verbatim>\<open>None\<close> or not a string, and what it raises is a \<^verbatim>\<open>ValueError\<close>. A string of whitespace only
  passes (the test runs on the text before \<^verbatim>\<open>strip()\<close>), so the pair stored for it has the
  empty string as its text: this holds for every non-empty text that \<^verbatim>\<open>strip()\<close> empties, and
  these include every non-empty text of ASCII whitespace.
\<close>

theorem add_to_memory_validation:
  "((\<exists>m. add_to_memory rt u b mem = Inl (ValueError m))
      \<longleftrightarrow> (u = PStr [] \<or> u = PNone \<or> \<not> is_str u \<or> b = PStr [] \<or> b = PNone \<or> \<not> is_str b))
   \<and> (\<forall>x. add_to_memory rt u b mem = Inl x \<longrightarrow> (\<exists>m. x = ValueError m))
   \<and> (ws \<noteq> [] \<and> str_strip rt ws = [] \<and> s \<noteq> [] \<longrightarrow>
        add_to_memory rt (PStr ws) (PStr s) [] = Inr [([], str_strip rt s)]
        \<and> add_to_memory rt (PStr s) (PStr ws) [] = Inr [(str_strip rt s, [])])
   \<and> (python_strings rt \<and> ws' \<noteq> [] \<and> list_all ascii_space ws' \<and> s \<noteq> [] \<longrightarrow>
        add_to_memory rt (PStr ws') (PStr s) [] = Inr [([], str_strip rt s)]
        \<and> add_to_memory rt (PStr s) (PStr ws') [] = Inr [(str_strip rt s, [])])"
proof -
  have raise: "(\<exists>m. add_to_memory rt u b mem = Inl (ValueError m))
      \<longleftrightarrow> (\<not> truthy rt u \<or> \<not> is_str u) \<or> (\<not> truthy rt b \<or> \<not> is_str b)"
    by (auto simp: add_to_memory_def Let_def)
  have only: "\<forall>x. add_to_memory rt u b mem = Inl x \<longrightarrow> (\<exists>m. x = ValueError m)"
    by (auto simp: add_to_memory_def Let_def split: if_splits)
  have emptied: "add_to_memory rt (PStr t) (PStr s) [] = Inr [([], str_strip rt s)]
        \<and> add_to_memory rt (PStr s) (PStr t) [] = Inr [(str_strip rt s, [])]"
    if "t \<noteq> []" and "str_strip rt t = []" and "s \<noteq> []" for t
    using that by (simp add: add_to_memory_valid last_n_def MAX_MEMORY_def)
  have blank: "str_strip rt ws' = []" if "python_strings rt" and "list_all ascii_space ws'"
  proof -
    from that(2) have "is_ascii ws'"
      by (rule ascii_space_is_ascii)
    with that(1) have "str_strip rt ws' = ascii_strip ws'"
      by (rule python_strings_strip)
    with that(2) show ?thesis
      by (simp add: strip_blank)
  qed
  show ?thesis
    using raise only emptied blank unfolding valid_arg_iff by blast
qed

theorem add_to_memory_validation_witness:
  "add_to_memory sample_runtime (PStr [CHR '' '', CHR 0x09]) (PStr ''ok'') [] = Inr [([], ''ok'')]
   \<and> (\<exists>m. add_to_memory sample_runtime PNone (PStr ''ok'') [] = Inl (ValueError m))
   \<and> (\<exists>m. add_to_memory sample_runtime (PStr ''hi'') (PInt 5) [] = Inl (ValueError m))
   \<and> (\<nexists>m. add_to_memory sample_runtime (PStr ''hi'') (PStr ''ok'') [] = Inl (ValueError m))"
proof -
  have blank: "python_strings sample_runtime \<and> [CHR '' '', CHR 0x09] \<noteq> []
      \<and> list_all ascii_space [CHR '' '', CHR 0x09] \<and> ''ok'' \<noteq> []"
    by (simp add: ascii_space_def python_strings_sample)
  have ok: "str_strip sample_runtime ''ok'' = ''ok''"
    by (simp add: sample_runtime_def ascii_strip_def py_rstrip_def ascii_space_def)
  from add_to_memory_validation [where rt = sample_runtime and ws' = "[CHR '' '', CHR 0x09]"
         and s = "''ok''"] blank ok
  have first: "add_to_memory sample_runtime (PStr [CHR '' '', CHR 0x09]) (PStr ''ok'') []
                 = Inr [([], ''ok'')]"
    by simp
  from add_to_memory_validation [where rt = sample_runtime and u = PNone and b = "PStr ''ok''"
         and mem = "[]"]
  have second: "\<exists>m. add_to_memory sample_runtime PNone (PStr ''ok'') [] = Inl (ValueError m)"
    by simp
  from add_to_memory_validation [where rt = sample_runtime and u = "PStr ''hi''" and b = "PInt 5"
         and mem = "[]"]
  have third: "\<exists>m. add_to_memory sample_runtime (PStr ''hi'') (PInt 5) [] = Inl (ValueError m)"
    by simp
  from add_to_memory_validation [where rt = sample_runtime and u = "PStr ''hi''"
         and b = "PStr ''ok''" and mem = "[]"]
  have fourth: "\<nexists>m. add_to_memory sample_runtime (PStr ''hi'') (PStr ''ok'') [] = Inl (ValueError m)"
    by simp
  from first second third fourth show ?thesis by blast
qed

end
